theory Spec2Isabelle
  imports Main "HOL-Library.Sublist"
begin

section \<open>Go values, errors and panics\<close>

text \<open>
  A Go \<^verbatim>\<open>string\<close> is a sequence of bytes, here a \<^typ>\<open>string\<close> (a list of 8-bit
  characters). A Go \<^verbatim>\<open>error\<close> value is identified with its message. A function of
  the program either returns normally, returns an error value, or panics; a panic is not
  an error value: it unwinds the goroutine and, unrecovered, ends the process.
\<close>

type_synonym error = string

datatype failure = Error error | Panic string

section \<open>The Go standard library functions the program calls\<close>

text \<open>
  \<^verbatim>\<open>strings.TrimSpace\<close> removes the leading and the trailing Unicode white space of a
  string. On the bytes of the string that is: the six ASCII white-space bytes, and the
  UTF-8 encodings of U+0085, U+00A0, U+1680, U+2000 to U+200A, U+2028, U+2029, U+202F,
  U+205F and U+3000. The leading runes are removed first, then the trailing ones, as
  \<^verbatim>\<open>TrimFunc\<close> does.
\<close>

definition spaceRunes :: "string list" where
  "spaceRunes =
    [[CHR 0x09], [CHR 0x0A], [CHR 0x0B], [CHR 0x0C], [CHR 0x0D], [CHR 0x20],
     [CHR 0xC2, CHR 0x85], [CHR 0xC2, CHR 0xA0],
     [CHR 0xE1, CHR 0x9A, CHR 0x80],
     [CHR 0xE2, CHR 0x80, CHR 0x80], [CHR 0xE2, CHR 0x80, CHR 0x81],
     [CHR 0xE2, CHR 0x80, CHR 0x82], [CHR 0xE2, CHR 0x80, CHR 0x83],
     [CHR 0xE2, CHR 0x80, CHR 0x84], [CHR 0xE2, CHR 0x80, CHR 0x85],
     [CHR 0xE2, CHR 0x80, CHR 0x86], [CHR 0xE2, CHR 0x80, CHR 0x87],
     [CHR 0xE2, CHR 0x80, CHR 0x88], [CHR 0xE2, CHR 0x80, CHR 0x89],
     [CHR 0xE2, CHR 0x80, CHR 0x8A],
     [CHR 0xE2, CHR 0x80, CHR 0xA8], [CHR 0xE2, CHR 0x80, CHR 0xA9],
     [CHR 0xE2, CHR 0x80, CHR 0xAF], [CHR 0xE2, CHR 0x81, CHR 0x9F],
     [CHR 0xE3, CHR 0x80, CHR 0x80]]"

text \<open>The white-space rune a string starts with, and the one it ends with, if any.\<close>

definition leadingSpace :: "string \<Rightarrow> string option" where
  "leadingSpace s = find (\<lambda>r. prefix r s) spaceRunes"

definition trailingSpace :: "string \<Rightarrow> string option" where
  "trailingSpace s = find (\<lambda>r. suffix r s) spaceRunes"

lemma spaceRunes_nonempty: "r \<in> set spaceRunes \<Longrightarrow> r \<noteq> []"
  by (auto simp: spaceRunes_def)

lemma leadingSpace_Some:
  "leadingSpace s = Some r \<Longrightarrow> r \<in> set spaceRunes \<and> prefix r s"
  unfolding leadingSpace_def by (auto simp: find_Some_iff)

lemma trailingSpace_Some:
  "trailingSpace s = Some r \<Longrightarrow> r \<in> set spaceRunes \<and> suffix r s"
  unfolding trailingSpace_def by (auto simp: find_Some_iff)

function TrimLeftSpace :: "string \<Rightarrow> string" where
  "TrimLeftSpace s =
     (case leadingSpace s of
        None \<Rightarrow> s
      | Some r \<Rightarrow> TrimLeftSpace (drop (length r) s))"
  by pat_completeness auto
termination TrimLeftSpace
proof (relation "measure length")
  show "wf (measure length)" by simp
next
  fix s r :: string
  assume "leadingSpace s = Some r"
  then have "r \<noteq> []" and "prefix r s"
    using leadingSpace_Some spaceRunes_nonempty by blast+
  then have "s \<noteq> []" by auto
  with \<open>r \<noteq> []\<close> show "(drop (length r) s, s) \<in> measure length" by simp
qed

function TrimRightSpace :: "string \<Rightarrow> string" where
  "TrimRightSpace s =
     (case trailingSpace s of
        None \<Rightarrow> s
      | Some r \<Rightarrow> TrimRightSpace (take (length s - length r) s))"
  by pat_completeness auto
termination TrimRightSpace
proof (relation "measure length")
  show "wf (measure length)" by simp
next
  fix s r :: string
  assume "trailingSpace s = Some r"
  then have "r \<noteq> []" and "suffix r s"
    using trailingSpace_Some spaceRunes_nonempty by blast+
  then have "s \<noteq> []" by auto
  with \<open>r \<noteq> []\<close> show "(take (length s - length r) s, s) \<in> measure length" by simp
qed

declare TrimLeftSpace.simps [simp del] TrimRightSpace.simps [simp del]

definition TrimSpace :: "string \<Rightarrow> string" where
  "TrimSpace s = TrimRightSpace (TrimLeftSpace s)"

text \<open>The bytes that occur in the encoding of some white-space rune.\<close>

definition spaceBytes :: "char set" where
  "spaceBytes = set (concat spaceRunes)"

text \<open>
  \<^verbatim>\<open>strings.LastIndex(s, substr)\<close> is the index of the last occurrence of \<open>substr\<close>
  in \<open>s\<close>, or -1 when there is none: the candidate positions are tried from the
  rightmost one down to 0.
\<close>

fun lastIndexAt :: "string \<Rightarrow> string \<Rightarrow> nat \<Rightarrow> int" where
  "lastIndexAt s substr 0 = (if prefix substr s then 0 else - 1)"
| "lastIndexAt s substr (Suc i) =
     (if prefix substr (drop (Suc i) s) then int (Suc i) else lastIndexAt s substr i)"

definition LastIndex :: "string \<Rightarrow> string \<Rightarrow> int" where
  "LastIndex s substr =
     (if length s < length substr then - 1
      else lastIndexAt s substr (length s - length substr))"

text \<open>
  The slice expression \<^verbatim>\<open>s[i:]\<close> on a string: a run-time panic unless
  \<open>0 \<le> i \<le> len(s)\<close>.
\<close>

definition sliceFrom :: "string \<Rightarrow> int \<Rightarrow> failure + string" where
  "sliceFrom s i =
     (if 0 \<le> i \<and> i \<le> int (length s) then Inr (drop (nat i) s)
      else Inl (Panic ''runtime error: slice bounds out of range''))"

text \<open>
  \<^verbatim>\<open>fmt\<close> with the verb \<^verbatim>\<open>%+v\<close> prints a slice of errors as the messages,
  separated by one space, in square brackets.
\<close>

fun joinWords :: "string list \<Rightarrow> string" where
  "joinWords [] = []"
| "joinWords [w] = w"
| "joinWords (w # ws) = w @ '' '' @ joinWords ws"

definition formatErrs :: "error list \<Rightarrow> string" where
  "formatErrs es = ''['' @ joinWords es @ '']''"

section \<open>Package api: options, presets and constants\<close>

record ImagesPreset =
  KubernetesVersion :: string
  NodeImageID :: string
  MasterImageID :: string
  NodeCPU :: int
  NodeMemory :: int
  MasterCPU :: int
  MasterMemory :: int
  CNIYamlPath :: string
  CNICmd :: string

text \<open>
  \<^verbatim>\<open>api.PresetKubernetes\<close>: the map filled once by \<^verbatim>\<open>init()\<close> and only read
  afterwards.
\<close>

definition PresetKubernetes :: "string \<rightharpoonup> ImagesPreset" where
  "PresetKubernetes =
     [''1.13.1'' \<mapsto>
        \<lparr>KubernetesVersion = ''1.13.1'', NodeImageID = ''img-rfubqmqn'',
         MasterImageID = ''img-ybttnmjg'', NodeCPU = 4, NodeMemory = 4096,
         MasterCPU = 4, MasterMemory = 4096, CNIYamlPath = ''/root/CNI'',
         CNICmd = ''cni.sh''\<rparr>,
      ''1.15.2'' \<mapsto>
        \<lparr>KubernetesVersion = ''1.15.2'', NodeImageID = ''img-kp1kue0l'',
         MasterImageID = ''img-79giiut8'', NodeCPU = 4, NodeMemory = 4096,
         MasterCPU = 4, MasterMemory = 4096, CNIYamlPath = ''/root/CNI'',
         CNICmd = ''cni.sh''\<rparr>]"

definition SSHKeyName :: string where
  "SSHKeyName = ''DO_NOT_REMOVE_K8S_KEY''"

definition CalicoCNI :: string where
  "CalicoCNI = ''calico''"

definition FlannelCNI :: string where
  "FlannelCNI = ''flannel''"

definition KubeconfigFilePath :: string where
  "KubeconfigFilePath = ''/etc/kubernetes/admin.conf''"

text \<open>
  The roles \<^verbatim>\<open>api.RoleMaster\<close> and \<^verbatim>\<open>api.RoleNode\<close>, and the types of the
  packages \<^verbatim>\<open>instance\<close> and \<^verbatim>\<open>tag\<close>, are declared outside the files at hand;
  they are given here with the fields the orchestrator reads and writes.
  \<^verbatim>\<open>CreateInstancesOption\<close> embeds the preset (the orchestrator reads
  \<^verbatim>\<open>createMasterOpt.CNIYamlPath\<close> through it). The instances of an answer are
  taken as values: an answer holds no nil pointer.
\<close>

datatype Role = RoleMaster | RoleNode

record Instance =
  ID :: string
  IP :: string

record Tag =
  TagID :: string

record CreateInstancesOption =
  Name :: string
  VxNet :: string
  Count :: int
  Role :: Role
  ImagesPreset :: ImagesPreset
  InstanceClass :: int
  SSHKeyID :: string

record NetworkOption =
  CNIName :: string
  PodNetWorkCIDR :: string

text \<open>
  \<^verbatim>\<open>api.CreateClusterOption\<close>, with the embedded \<^verbatim>\<open>NetworkOption\<close> as a field
  and with the two fields \<^verbatim>\<open>runCreate\<close> reads for the export of the kubeconfig.
\<close>

record CreateClusterOption =
  ClusterName :: string
  KubernetesVersion :: string
  NodeCount :: int
  VxNet :: string
  InstanceClass :: int
  Zone :: string
  NetworkOption :: NetworkOption
  UseExistKey :: bool
  ScpKubeConfigToLocal :: bool
  LocalKubeConfigPath :: string

section \<open>The collaborators, and what a run does to them\<close>

text \<open>
  The cloud services (tags, key pairs, instances), the remote shell, the local file
  system and the session set-up of \<^verbatim>\<open>init\<close> are outside the program. They are
  parameters of the model: each is a function from the arguments of a call to its
  answer. A Go result \<^verbatim>\<open>(v, err)\<close> is \<open>Inl err\<close> or \<open>Inr v\<close>; a lone \<^verbatim>\<open>error\<close>
  result is \<open>Some err\<close> or \<open>None\<close>. \<^verbatim>\<open>GetTagClusterByName\<close> answers a nil tag (\<open>None\<close>)
  when there is none, and \<^verbatim>\<open>ssh.QuickConnectAndRun\<close> answers its captured output also
  when it fails.
\<close>

record env =
  Init :: "string \<Rightarrow> error option"
  GetTagClusterByName :: "string \<Rightarrow> error + Tag option"
  CreateTag :: "string \<Rightarrow> error + string"
  TagInstances :: "string \<Rightarrow> string list \<Rightarrow> error option"
  GetDefaultPublicKeyFile :: string
  ReadFile :: "string \<Rightarrow> error + string"
  GetKeyPairByName :: "string \<Rightarrow> error + string"
  CreateSSHKey :: "string \<Rightarrow> string \<Rightarrow> error + string"
  CreateInstances :: "CreateInstancesOption \<Rightarrow> error + Instance list"
  QuickConnectAndRun :: "string \<Rightarrow> string \<Rightarrow> string \<times> error option"
  WriteFile :: "string \<Rightarrow> string \<Rightarrow> nat \<Rightarrow> error option"

text \<open>
  What a run does is the sequence of its calls to the collaborators, with their
  arguments, and of its error-level log lines (format and arguments of
  \<^verbatim>\<open>klog.Error\<close>, \<^verbatim>\<open>klog.Errorf\<close> and \<^verbatim>\<open>klog.Errorln\<close>). Informational log
  lines and the timing of \<^verbatim>\<open>RunCreate\<close> decide nothing and are left out.
\<close>

datatype event =
    Call_Init string
  | Call_GetTagClusterByName string
  | Call_CreateTag string
  | Call_TagInstances string "string list"
  | Call_ReadFile string
  | Call_GetKeyPairByName string
  | Call_CreateSSHKey string string
  | Call_CreateInstances CreateInstancesOption
  | Call_QuickConnectAndRun string string
  | Call_WriteFile string string nat
  | Klog_Error string "string list"

text \<open>
  A step of the program yields a value or a failure, and the events it caused up to
  there. Steps are chained by \<open>andThen\<close>: a failure ends the chain, the events add up.
\<close>

type_synonym 'a act = "(failure + 'a) \<times> event list"

definition ok :: "'a \<Rightarrow> 'a act" where
  "ok x = (Inr x, [])"

definition failWith :: "failure \<Rightarrow> 'a act" where
  "failWith f = (Inl f, [])"

definition call :: "event \<Rightarrow> 'a \<Rightarrow> 'a act" where
  "call ev answer = (Inr answer, [ev])"

definition klogError :: "string \<Rightarrow> string list \<Rightarrow> unit act" where
  "klogError format args = (Inr (), [Klog_Error format args])"

definition andThen :: "'a act \<Rightarrow> ('a \<Rightarrow> 'b act) \<Rightarrow> 'b act" where
  "andThen m f =
     (case m of
        (Inl e, t) \<Rightarrow> (Inl e, t)
      | (Inr x, t) \<Rightarrow> (case f x of (r, t') \<Rightarrow> (r, t @ t')))"

text \<open>Reading a field through a pointer: a nil pointer panics.\<close>

definition deref :: "'a option \<Rightarrow> 'a act" where
  "deref p =
     (case p of
        None \<Rightarrow> failWith (Panic ''runtime error: invalid memory address or nil pointer dereference'')
      | Some x \<Rightarrow> ok x)"

section \<open>Package app: the pure functions\<close>

definition tagName :: "string \<Rightarrow> string" where
  "tagName name = ''K8S-Cluster-'' @ name"

definition validateCreateInput :: "CreateClusterOption \<Rightarrow> error option" where
  "validateCreateInput opt =
     (if ClusterName opt = [] then Some ''ClusterName cannot be empty'' else None)"

definition generateKubeadmInitCmd :: "NetworkOption \<Rightarrow> string \<Rightarrow> error + string" where
  "generateKubeadmInitCmd opt version =
     (if PodNetWorkCIDR opt = [] then Inl ''Must specify a network for pod''
      else if CNIName opt = CalicoCNI \<or> CNIName opt = FlannelCNI
      then Inr (''kubeadm init --pod-network-cidr='' @ PodNetWorkCIDR opt
                @ '' --kubernetes-version=v'' @ version)
      else Inl (''CNI plugin '' @ CNIName opt @ '' is not supported right now''))"

definition GetKubeJoinFromOutput :: "string \<Rightarrow> failure + string" where
  "GetKubeJoinFromOutput output =
     (let output = TrimSpace output;
          index = LastIndex output ''kubeadm join''
      in sliceFrom output index)"

section \<open>Package app: tag and key preparation\<close>

text \<open>
  The tag resolution of \<^verbatim>\<open>runCreate\<close> (its lines 110 to 126, from "Prepare Tag" to
  the tag id): the tag of the cluster is looked up by name and created only when the
  lookup finds none.
\<close>

definition resolveTag :: "env \<Rightarrow> string \<Rightarrow> string act" where
  "resolveTag a clusterName =
     (let tag = tagName clusterName in
      andThen (call (Call_GetTagClusterByName tag) (GetTagClusterByName a tag)) (\<lambda>r.
        case r of
          Inl err \<Rightarrow>
            andThen (klogError ''Failed to get current tag'' []) (\<lambda>_. failWith (Error err))
        | Inr (Some found) \<Rightarrow> ok (TagID found)
        | Inr None \<Rightarrow>
            andThen (call (Call_CreateTag tag) (CreateTag a tag)) (\<lambda>r.
              case r of
                Inl err \<Rightarrow>
                  andThen (klogError ''Failed to create tag %s'' [tag])
                    (\<lambda>_. failWith (Error err))
              | Inr tagID \<Rightarrow> ok tagID)))"

definition prepareSSHKey :: "env \<Rightarrow> bool \<Rightarrow> string act" where
  "prepareSSHKey a useExistKey =
     andThen (call (Call_ReadFile (GetDefaultPublicKeyFile a))
                (ReadFile a (GetDefaultPublicKeyFile a))) (\<lambda>r.
       case r of
         Inl err \<Rightarrow>
           andThen (klogError ''Failed to read ssh public key'' [])
             (\<lambda>_. failWith (Error err))
       | Inr output \<Rightarrow>
           (let create =
                  andThen (call (Call_CreateSSHKey SSHKeyName output)
                             (CreateSSHKey a SSHKeyName output)) (\<lambda>r.
                    case r of Inl err \<Rightarrow> failWith (Error err) | Inr key \<Rightarrow> ok key)
            in if useExistKey
               then andThen (call (Call_GetKeyPairByName SSHKeyName)
                               (GetKeyPairByName a SSHKeyName)) (\<lambda>r.
                      case r of
                        Inl err \<Rightarrow> failWith (Error err)
                      | Inr key \<Rightarrow> if key \<noteq> [] then ok key else create)
               else create))"

section \<open>Package app: the two provisioning goroutines\<close>

definition createMasterOpt ::
    "CreateClusterOption \<Rightarrow> ImagesPreset \<Rightarrow> string \<Rightarrow> CreateInstancesOption" where
  "createMasterOpt opt preset keyid =
     \<lparr>Name = ClusterName opt, CreateInstancesOption.VxNet = VxNet opt, Count = 1,
      Role = RoleMaster, ImagesPreset = preset,
      CreateInstancesOption.InstanceClass = InstanceClass opt, SSHKeyID = keyid\<rparr>"

definition createNodesOpt ::
    "CreateClusterOption \<Rightarrow> ImagesPreset \<Rightarrow> string \<Rightarrow> CreateInstancesOption" where
  "createNodesOpt opt preset keyid =
     \<lparr>Name = ClusterName opt, CreateInstancesOption.VxNet = VxNet opt,
      Count = NodeCount opt, Role = RoleNode, ImagesPreset = preset,
      CreateInstancesOption.InstanceClass = InstanceClass opt, SSHKeyID = keyid\<rparr>"

text \<open>
  The variables of \<^verbatim>\<open>runCreate\<close> that the two goroutines write: \<^verbatim>\<open>errs\<close> and
  \<^verbatim>\<open>machines\<close> are written by both, \<^verbatim>\<open>master\<close> by the first and \<^verbatim>\<open>nodes\<close> by the
  second only.
\<close>

record shared =
  errs :: "error list"
  machines :: "string list"
  master :: "Instance option"
  nodes :: "Instance list"

text \<open>
  The source takes no lock. An assignment \<^verbatim>\<open>xs = append(xs, v)\<close> to a variable that
  both goroutines write is therefore two steps, the read of \<^verbatim>\<open>xs\<close> and the write of
  the extended slice, and steps of the other goroutine may come between them. Slices
  are taken as values: what a write stores is the slice that was read, extended by one
  element (a backing array shared by the two goroutines is not modelled).
  Each goroutine keeps the slices it has read in registers of its own.
\<close>

text \<open>
  The steps of a goroutine: the call \<^verbatim>\<open>a.instanceIface.CreateInstances(...)\<close> (lines 154
  and 178); the read and the write of \<^verbatim>\<open>errs = append(errs, err)\<close> (lines 156 and
  180); \<^verbatim>\<open>master = instances[0]\<close> (line 159), which panics on an empty slice; the read
  and the write of \<^verbatim>\<open>machines = append(machines, id)\<close> (lines 160 and 184); and
  \<^verbatim>\<open>nodes = append(nodes, machine)\<close> (line 185), one step, since only the second
  goroutine touches \<^verbatim>\<open>nodes\<close>.
\<close>

datatype op =
    CreateInstancesCall CreateInstancesOption
  | ErrsLoad
  | ErrsStore error
  | MasterAssign "Instance list"
  | MachinesLoad
  | MachinesStore string
  | NodesAppend Instance

record regs =
  errsRead :: "error list"
  machinesRead :: "string list"

fun exec :: "op \<Rightarrow> regs \<times> shared \<Rightarrow> (regs \<times> shared) act" where
  "exec (CreateInstancesCall opt) (reg, sh) = call (Call_CreateInstances opt) (reg, sh)"
| "exec ErrsLoad (reg, sh) = ok (reg\<lparr>errsRead := errs sh\<rparr>, sh)"
| "exec (ErrsStore err) (reg, sh) = ok (reg, sh\<lparr>errs := errsRead reg @ [err]\<rparr>)"
| "exec (MasterAssign instances) (reg, sh) =
     (case instances of
        [] \<Rightarrow> failWith (Panic ''runtime error: index out of range [0] with length 0'')
      | i # _ \<Rightarrow> ok (reg, sh\<lparr>master := Some i\<rparr>))"
| "exec MachinesLoad (reg, sh) = ok (reg\<lparr>machinesRead := machines sh\<rparr>, sh)"
| "exec (MachinesStore mid) (reg, sh) =
     ok (reg, sh\<lparr>machines := machinesRead reg @ [mid]\<rparr>)"
| "exec (NodesAppend machine) (reg, sh) = ok (reg, sh\<lparr>nodes := nodes sh @ [machine]\<rparr>)"

text \<open>
  The first goroutine (lines 152 to 162): create the master; on an error append it to \<^verbatim>\<open>errs\<close> and
  return; otherwise \<^verbatim>\<open>master = instances[0]\<close> and append its id to \<^verbatim>\<open>machines\<close>.
\<close>

definition masterOps :: "env \<Rightarrow> CreateInstancesOption \<Rightarrow> op list" where
  "masterOps a opt =
     CreateInstancesCall opt #
     (case CreateInstances a opt of
        Inl err \<Rightarrow> [ErrsLoad, ErrsStore err]
      | Inr instances \<Rightarrow>
          MasterAssign instances #
          (case instances of [] \<Rightarrow> [] | i # _ \<Rightarrow> [MachinesLoad, MachinesStore (ID i)]))"

text \<open>
  The second goroutine (lines 167 to 188): create the nodes; on an error append it to \<^verbatim>\<open>errs\<close> and
  return; otherwise, for each instance in the order of the answer, append its id to
  \<^verbatim>\<open>machines\<close> and the instance to \<^verbatim>\<open>nodes\<close>.
\<close>

definition nodesOps :: "env \<Rightarrow> CreateInstancesOption \<Rightarrow> op list" where
  "nodesOps a opt =
     CreateInstancesCall opt #
     (case CreateInstances a opt of
        Inl err \<Rightarrow> [ErrsLoad, ErrsStore err]
      | Inr instances \<Rightarrow>
          concat (map (\<lambda>machine. [MachinesLoad, MachinesStore (ID machine), NodesAppend machine])
                    instances))"

text \<open>
  The two goroutines run until both are done (\<^verbatim>\<open>wg.Wait()\<close>). The schedule says, step
  by step, which of them moves: \<open>True\<close> for the first. A goroutine that is done leaves
  the other to run, and so does a schedule that has run out (then the first goes
  before the second). A panic in either goroutine ends the whole run at once.
\<close>

fun runGoroutines ::
    "bool list \<Rightarrow> op list \<Rightarrow> regs \<Rightarrow> op list \<Rightarrow> regs \<Rightarrow> shared \<Rightarrow> shared act"
  where
  "runGoroutines sched [] rm [] rn sh = ok sh"
| "runGoroutines sched (x # xs) rm [] rn sh =
     andThen (exec x (rm, sh)) (\<lambda>(rm', sh'). runGoroutines sched xs rm' [] rn sh')"
| "runGoroutines sched [] rm (y # ys) rn sh =
     andThen (exec y (rn, sh)) (\<lambda>(rn', sh'). runGoroutines sched [] rm ys rn' sh')"
| "runGoroutines [] (x # xs) rm (y # ys) rn sh =
     andThen (exec x (rm, sh)) (\<lambda>(rm', sh'). runGoroutines [] xs rm' (y # ys) rn sh')"
| "runGoroutines (True # sched) (x # xs) rm (y # ys) rn sh =
     andThen (exec x (rm, sh)) (\<lambda>(rm', sh'). runGoroutines sched xs rm' (y # ys) rn sh')"
| "runGoroutines (False # sched) (x # xs) rm (y # ys) rn sh =
     andThen (exec y (rn, sh)) (\<lambda>(rn', sh'). runGoroutines sched (x # xs) rm ys rn' sh')"

definition noRegs :: regs where
  "noRegs = \<lparr>errsRead = [], machinesRead = []\<rparr>"

definition provision ::
    "env \<Rightarrow> bool list \<Rightarrow> CreateClusterOption \<Rightarrow> ImagesPreset \<Rightarrow> string \<Rightarrow> shared act" where
  "provision a sched opt preset keyid =
     runGoroutines sched
       (masterOps a (createMasterOpt opt preset keyid)) noRegs
       (nodesOps a (createNodesOpt opt preset keyid)) noRegs
       \<lparr>errs = [], machines = [], master = None, nodes = []\<rparr>"

section \<open>Package app: bringing the cluster up\<close>

text \<open>
  A caller that logs before it passes an error on
  (\<^verbatim>\<open>if err != nil { klog.Error...; return err }\<close>). A panic is not an error value and
  passes through.
\<close>

definition orLog :: "'a act \<Rightarrow> string \<Rightarrow> string list \<Rightarrow> 'a act" where
  "orLog m format args =
     (case m of
        (Inl (Error err), t) \<Rightarrow> (Inl (Error err), t @ [Klog_Error format args])
      | (Inl (Panic p), t) \<Rightarrow> (Inl (Panic p), t)
      | (Inr x, t) \<Rightarrow> (Inr x, t))"

definition bootstrapMaster :: "env \<Rightarrow> Instance option \<Rightarrow> CreateClusterOption \<Rightarrow> string act" where
  "bootstrapMaster a masterPtr opt =
     (case generateKubeadmInitCmd (NetworkOption opt) (KubernetesVersion opt) of
        Inl err \<Rightarrow> failWith (Error err)
      | Inr cmd \<Rightarrow>
          andThen (deref masterPtr) (\<lambda>m.
          andThen (call (Call_QuickConnectAndRun (IP m) (''swapoff -a;'' @ cmd))
                     (QuickConnectAndRun a (IP m) (''swapoff -a;'' @ cmd))) (\<lambda>(output, err).
            case err of
              Some e \<Rightarrow>
                andThen (klogError (''Failed to run '' @ [CHR 0x27] @ ''kubeadm init'' @ [CHR 0x27]) [])
                  (\<lambda>_. failWith (Error e))
            | None \<Rightarrow>
                (case GetKubeJoinFromOutput output of
                   Inl p \<Rightarrow> failWith p
                 | Inr joinCmd \<Rightarrow> ok joinCmd))))"

definition applyCNI :: "env \<Rightarrow> string \<Rightarrow> string \<Rightarrow> string \<Rightarrow> unit act" where
  "applyCNI a cni yamlPath masterip =
     (let cmd = ''kubectl --kubeconfig='' @ KubeconfigFilePath @ '' apply -f ''
                @ yamlPath @ ''/'' @ cni @ ''/''
      in andThen (call (Call_QuickConnectAndRun masterip cmd)
                    (QuickConnectAndRun a masterip cmd)) (\<lambda>(bytes, err).
           case err of Some e \<Rightarrow> failWith (Error e) | None \<Rightarrow> ok ()))"

text \<open>The loop \<^verbatim>\<open>for _, node := range nodes\<close> of \<^verbatim>\<open>runCreate\<close> (lines 215 to 225).\<close>

fun joinNodes :: "env \<Rightarrow> string \<Rightarrow> Instance list \<Rightarrow> unit act" where
  "joinNodes a joinCmd [] = ok ()"
| "joinNodes a joinCmd (node # rest) =
     andThen (call (Call_QuickConnectAndRun (IP node) (''swapoff -a; '' @ joinCmd))
                (QuickConnectAndRun a (IP node) (''swapoff -a; '' @ joinCmd))) (\<lambda>(output, err).
       case err of
         Some e \<Rightarrow>
           andThen (klogError ''Failed to join %s %s to cluster'' [ID node, IP node])
             (\<lambda>_. failWith (Error e))
       | None \<Rightarrow> joinNodes a joinCmd rest)"

text \<open>The file mode \<^verbatim>\<open>0600\<close> (octal): read and write for the owner only.\<close>

definition mode0600 :: nat where
  "mode0600 = 6 * 8 * 8"

definition transferKubeconfigToLocal :: "env \<Rightarrow> string \<Rightarrow> string \<Rightarrow> unit act" where
  "transferKubeconfigToLocal a masterip localPath =
     andThen (call (Call_QuickConnectAndRun masterip ''cat /etc/kubernetes/admin.conf'')
                (QuickConnectAndRun a masterip ''cat /etc/kubernetes/admin.conf'')) (\<lambda>(bytes, err).
       case err of
         Some e \<Rightarrow> andThen (klogError bytes []) (\<lambda>_. failWith (Error e))
       | None \<Rightarrow>
           andThen (call (Call_WriteFile (localPath @ ''/kubeconfig'') bytes mode0600)
                      (WriteFile a (localPath @ ''/kubeconfig'') bytes mode0600)) (\<lambda>r.
             case r of
               Some e \<Rightarrow>
                 andThen (klogError ''Failed to write kubeconfig'' []) (\<lambda>_. failWith (Error e))
             | None \<Rightarrow> ok ()))"

section \<open>Package app: the orchestrator\<close>

text \<open>
  \<^verbatim>\<open>runCreate\<close>, in the order of the source: the tag, the key, the check of the
  version against the preset catalog, the two goroutines and the barrier, the check of
  \<^verbatim>\<open>errs\<close>, the tagging of the machines, the bootstrap of the master, the CNI, the
  join loop and the export of the kubeconfig. The schedule of the two goroutines is a
  parameter.
\<close>

definition runCreate :: "env \<Rightarrow> bool list \<Rightarrow> CreateClusterOption \<Rightarrow> unit act" where
  "runCreate a sched opt =
     andThen (resolveTag a (ClusterName opt)) (\<lambda>tagID.
     andThen (prepareSSHKey a (UseExistKey opt)) (\<lambda>keyid.
       case PresetKubernetes (KubernetesVersion opt) of
         None \<Rightarrow>
           failWith (Error (''Currently we do not support k8s version ''
                            @ KubernetesVersion opt))
       | Some preset \<Rightarrow>
     andThen (provision a sched opt preset keyid) (\<lambda>sh.
       if length (errs sh) \<noteq> 0
       then failWith (Error (''Creating Machines failed, errs: '' @ formatErrs (errs sh)))
       else
     andThen (call (Call_TagInstances tagID (machines sh))
                (TagInstances a tagID (machines sh))) (\<lambda>r.
       case r of
         Some err \<Rightarrow> failWith (Error err)
       | None \<Rightarrow>
     andThen (orLog (bootstrapMaster a (master sh) opt)
                ''Failed to bootstrap master node'' []) (\<lambda>joinCmd.
     andThen (deref (master sh)) (\<lambda>m.
     andThen (orLog (applyCNI a (CNIName (NetworkOption opt)) (CNIYamlPath preset) (IP m))
                ''Failed to apply CNI plugin %s'' [CNIName (NetworkOption opt)]) (\<lambda>_.
     andThen (joinNodes a joinCmd (nodes sh)) (\<lambda>_.
       if ScpKubeConfigToLocal opt
       then orLog (transferKubeconfigToLocal a (IP m) (LocalKubeConfigPath opt))
              ''Failed to transfer kubeconfig'' []
       else ok ()))))))))"

definition RunCreate :: "env \<Rightarrow> bool list \<Rightarrow> CreateClusterOption \<Rightarrow> unit act" where
  "RunCreate a sched opt =
     (case validateCreateInput opt of
        Some err \<Rightarrow> failWith (Error err)
      | None \<Rightarrow>
          andThen (call (Call_Init (Zone opt)) (Init a (Zone opt))) (\<lambda>r.
            case r of
              Some err \<Rightarrow>
                andThen (klogError ''Falied to init command'' []) (\<lambda>_. failWith (Error err))
            | None \<Rightarrow> runCreate a sched opt))"

section \<open>Auxiliary definitions for the statements\<close>

definition indexPanic :: failure where
  "indexPanic = Panic ''runtime error: index out of range [0] with length 0''"

text \<open>The instances that the pending steps of a goroutine will append to \<^verbatim>\<open>nodes\<close>.\<close>

fun appended :: "op list \<Rightarrow> Instance list" where
  "appended [] = []"
| "appended (NodesAppend m # xs) = m # appended xs"
| "appended (_ # xs) = appended xs"


fun writesFile :: "event \<Rightarrow> bool" where
  "writesFile (Call_WriteFile _ _ _) = True"
| "writesFile _ = False"

section \<open>An example run\<close>

text \<open>
  The request of the spec's end-to-end scenario, with three nodes, and collaborators
  that all succeed: no tag and no key pair exist yet, the master and the nodes are
  created, and the output of the master's bootstrap holds a join directive.
\<close>

definition demoOpt :: CreateClusterOption where
  "demoOpt =
     \<lparr>ClusterName = ''demo'', KubernetesVersion = ''1.15.2'', NodeCount = 3,
      VxNet = ''vxnet-0'', InstanceClass = 0, Zone = ''pek3'',
      NetworkOption = \<lparr>CNIName = ''flannel'', PodNetWorkCIDR = ''10.244.0.0/16''\<rparr>,
      UseExistKey = False, ScpKubeConfigToLocal = True, LocalKubeConfigPath = ''/tmp''\<rparr>"

definition demoMaster :: Instance where
  "demoMaster = \<lparr>ID = ''i-master'', IP = ''10.0.0.1''\<rparr>"

definition nodeA :: Instance where
  "nodeA = \<lparr>ID = ''i-a'', IP = ''10.0.0.2''\<rparr>"

definition nodeB :: Instance where
  "nodeB = \<lparr>ID = ''i-b'', IP = ''10.0.0.3''\<rparr>"

definition nodeC :: Instance where
  "nodeC = \<lparr>ID = ''i-c'', IP = ''10.0.0.4''\<rparr>"

definition demoEnv :: env where
  "demoEnv =
     \<lparr>Init = (\<lambda>zone. None),
      GetTagClusterByName = (\<lambda>name. Inr None),
      CreateTag = (\<lambda>name. Inr ''tag-1''),
      TagInstances = (\<lambda>tagID ids. None),
      GetDefaultPublicKeyFile = ''/root/.ssh/id_rsa.pub'',
      ReadFile = (\<lambda>path. Inr ''ssh-rsa AAAA''),
      GetKeyPairByName = (\<lambda>name. Inr []),
      CreateSSHKey = (\<lambda>name key. Inr ''kp-1''),
      CreateInstances =
        (\<lambda>opt. if Role opt = RoleMaster then Inr [demoMaster] else Inr [nodeA, nodeB, nodeC]),
      QuickConnectAndRun =
        (\<lambda>ip cmd.
           if cmd = ''cat /etc/kubernetes/admin.conf'' then (''apiVersion: v1'', None)
           else if ip = ''10.0.0.1''
           then (''...\<newline>kubeadm join 10.0.0.1:6443 --token abc\<newline>'', None)
           else ([], None)),
      WriteFile = (\<lambda>path bytes mode. None)\<rparr>"

definition demoPreset :: ImagesPreset where
  "demoPreset =
     \<lparr>ImagesPreset.KubernetesVersion = ''1.15.2'', NodeImageID = ''img-kp1kue0l'',
      MasterImageID = ''img-79giiut8'', NodeCPU = 4, NodeMemory = 4096,
      MasterCPU = 4, MasterMemory = 4096, CNIYamlPath = ''/root/CNI'',
      CNICmd = ''cni.sh''\<rparr>"


definition bothFailEnv :: env where
  "bothFailEnv =
     demoEnv\<lparr>CreateInstances :=
       (\<lambda>opt. if Role opt = RoleMaster then Inl ''no master image''
              else Inl ''quota exceeded'')\<rparr>"

text \<open>The provider answers the creation of the master with an empty list and no error.\<close>

definition noMasterEnv :: env where
  "noMasterEnv =
     demoEnv\<lparr>CreateInstances :=
       (\<lambda>opt. if Role opt = RoleMaster then Inr [] else Inr [nodeA, nodeB, nodeC])\<rparr>"

text \<open>The tag of the cluster exists already.\<close>

definition taggedEnv :: env where
  "taggedEnv = demoEnv\<lparr>GetTagClusterByName := (\<lambda>name. Inr (Some \<lparr>TagID = ''tag-7''\<rparr>))\<rparr>"

text \<open>The join fails on the second node.\<close>

definition joinFailsEnv :: env where
  "joinFailsEnv =
     demoEnv\<lparr>QuickConnectAndRun :=
       (\<lambda>ip cmd.
          if ip = ''10.0.0.1''
          then (''...\<newline>kubeadm join 10.0.0.1:6443 --token abc\<newline>'', None)
          else if ip = ''10.0.0.3'' then (''connection refused'', Some ''exit status 1'')
          else ([], None))\<rparr>"

text \<open>
  A schedule on which both goroutines read \<^verbatim>\<open>machines\<close> (or \<^verbatim>\<open>errs\<close>) before either
  writes it: the first goroutine makes its call, assigns and reads; the second makes its
  call and reads; then the first writes, then the second.
\<close>

definition racySchedule :: "bool list" where
  "racySchedule = [True, True, True, False, False, True, False]"

definition racyErrSchedule :: "bool list" where
  "racyErrSchedule = [True, True, False, False, True, False]"

text \<open>
  Further variants: the bootstrap succeeds but its output holds no join directive; the
  lookup of the tag fails; the public key cannot be read; the request names a CNI
  plugin that is not supported.
\<close>

definition noMarkerEnv :: env where
  "noMarkerEnv =
     demoEnv\<lparr>QuickConnectAndRun :=
       (\<lambda>ip cmd. (''[init] Using Kubernetes version: v1.15.2'', None))\<rparr>"

definition tagLookupFailsEnv :: env where
  "tagLookupFailsEnv =
     demoEnv\<lparr>GetTagClusterByName := (\<lambda>name. Inl ''tag service unavailable'')\<rparr>"

definition keyFailsEnv :: env where
  "keyFailsEnv = demoEnv\<lparr>ReadFile := (\<lambda>path. Inl ''no such file'')\<rparr>"

definition weaveOpt :: CreateClusterOption where
  "weaveOpt =
     demoOpt\<lparr>NetworkOption := \<lparr>CNIName = ''weave'', PodNetWorkCIDR = ''10.244.0.0/16''\<rparr>\<rparr>"

section \<open>Facts about the string functions\<close>

lemma lastIndexAt_neg:
  "lastIndexAt s sub n = - 1 \<longleftrightarrow> (\<forall>j\<le>n. \<not> prefix sub (drop j s))"
  by (induction n) (auto simp: le_Suc_eq)

lemma lastIndexAt_found:
  "lastIndexAt s sub n \<noteq> - 1 \<Longrightarrow>
   \<exists>i\<le>n. lastIndexAt s sub n = int i \<and> prefix sub (drop i s) \<and>
         (\<forall>j. i < j \<and> j \<le> n \<longrightarrow> \<not> prefix sub (drop j s))"
proof (induction n)
  case 0
  then show ?case by (auto split: if_splits)
next
  case (Suc n)
  show ?case
  proof (cases "prefix sub (drop (Suc n) s)")
    case True
    then show ?thesis by auto
  next
    case False
    with Suc.prems have "lastIndexAt s sub n \<noteq> - 1" by simp
    from Suc.IH[OF this] obtain i where i: "i \<le> n" "lastIndexAt s sub n = int i"
      "prefix sub (drop i s)" "\<forall>j. i < j \<and> j \<le> n \<longrightarrow> \<not> prefix sub (drop j s)" by blast
    have "\<forall>j. i < j \<and> j \<le> Suc n \<longrightarrow> \<not> prefix sub (drop j s)"
      using i(4) False by (auto simp: le_Suc_eq)
    with i False show ?thesis by (intro exI[of _ i]) auto
  qed
qed

lemma sublist_iff_prefix_drop:
  "sublist sub s \<longleftrightarrow> (\<exists>j. j + length sub \<le> length s \<and> prefix sub (drop j s))"
proof
  assume "sublist sub s"
  then obtain ps ss where "s = ps @ sub @ ss" by (auto simp: sublist_def)
  then show "\<exists>j. j + length sub \<le> length s \<and> prefix sub (drop j s)"
    by (intro exI[of _ "length ps"]) auto
next
  assume "\<exists>j. j + length sub \<le> length s \<and> prefix sub (drop j s)"
  then obtain j zs where "drop j s = sub @ zs" by (auto simp: prefix_def)
  then have "s = take j s @ sub @ zs" by (metis append_take_drop_id)
  then show "sublist sub s" by (auto simp: sublist_def)
qed

lemma prefix_drop_bound:
  assumes "prefix sub (drop j s)" "sub \<noteq> []"
  shows "j + length sub \<le> length s"
proof -
  from assms(1) obtain zs where "drop j s = sub @ zs" by (auto simp: prefix_def)
  then have "length s - j = length sub + length zs"
    by (metis length_append length_drop)
  moreover have "0 < length sub" using assms(2) by simp
  ultimately show ?thesis by arith
qed

lemma LastIndex_none:
  assumes "sub \<noteq> []"
  shows "LastIndex s sub = - 1 \<longleftrightarrow> \<not> sublist sub s"
proof (cases "length s < length sub")
  case True
  then have "\<not> sublist sub s"
    by (auto simp: sublist_iff_prefix_drop)
  with True show ?thesis by (simp add: LastIndex_def)
next
  case False
  have "(\<forall>j\<le>length s - length sub. \<not> prefix sub (drop j s)) \<longleftrightarrow> \<not> sublist sub s"
  proof
    assume a: "\<forall>j\<le>length s - length sub. \<not> prefix sub (drop j s)"
    show "\<not> sublist sub s"
    proof
      assume "sublist sub s"
      then obtain j where "j + length sub \<le> length s" "prefix sub (drop j s)"
        by (auto simp: sublist_iff_prefix_drop)
      with a show False by (metis add_le_imp_le_diff)
    qed
  next
    assume "\<not> sublist sub s"
    then show "\<forall>j\<le>length s - length sub. \<not> prefix sub (drop j s)"
      using prefix_drop_bound[OF _ assms] by (auto simp: sublist_iff_prefix_drop)
  qed
  with False show ?thesis by (simp add: LastIndex_def lastIndexAt_neg)
qed

lemma LastIndex_found:
  assumes "sublist sub s" "sub \<noteq> []"
  shows "\<exists>i. LastIndex s sub = int i \<and> i + length sub \<le> length s \<and> prefix sub (drop i s) \<and>
         (\<forall>j>i. \<not> prefix sub (drop j s))"
proof -
  have len: "\<not> length s < length sub"
    using assms(1) by (auto simp: sublist_iff_prefix_drop)
  have "LastIndex s sub \<noteq> - 1" using LastIndex_none[OF assms(2)] assms(1) by simp
  with len have "lastIndexAt s sub (length s - length sub) \<noteq> - 1"
    by (simp add: LastIndex_def)
  from lastIndexAt_found[OF this] obtain i where i:
    "i \<le> length s - length sub" "lastIndexAt s sub (length s - length sub) = int i"
    "prefix sub (drop i s)"
    "\<forall>j. i < j \<and> j \<le> length s - length sub \<longrightarrow> \<not> prefix sub (drop j s)" by blast
  have "\<forall>j>i. \<not> prefix sub (drop j s)"
  proof (intro allI impI notI)
    fix j assume "i < j" "prefix sub (drop j s)"
    moreover from prefix_drop_bound[OF this(2) assms(2)] have "j \<le> length s - length sub" by arith
    ultimately show False using i(4) by blast
  qed
  moreover have "i + length sub \<le> length s" using prefix_drop_bound[OF i(3) assms(2)] .
  ultimately show ?thesis using i len by (auto simp: LastIndex_def)
qed

lemma spaceBytes_k: "CHR ''k'' \<notin> spaceBytes" "CHR ''n'' \<notin> spaceBytes"
  by (simp_all add: spaceBytes_def spaceRunes_def)

lemma TrimLeftSpace_decomp:
  "\<exists>pre. s = pre @ TrimLeftSpace s \<and> set pre \<subseteq> spaceBytes"
proof (induction s rule: TrimLeftSpace.induct)
  case (1 s)
  show ?case
  proof (cases "leadingSpace s")
    case None
    then have "TrimLeftSpace s = s" by (subst TrimLeftSpace.simps) simp
    then show ?thesis by simp
  next
    case (Some r)
    from "1.IH"[OF Some] obtain pre where pre:
      "drop (length r) s = pre @ TrimLeftSpace (drop (length r) s)"
      "set pre \<subseteq> spaceBytes" by blast
    from leadingSpace_Some[OF Some] have r: "r \<in> set spaceRunes" "prefix r s" by auto
    then have "set r \<subseteq> spaceBytes" by (auto simp: spaceBytes_def)
    moreover from r(2) have "s = r @ drop (length r) s" by (auto simp: prefix_def)
    moreover have "TrimLeftSpace s = TrimLeftSpace (drop (length r) s)"
      using Some by (subst TrimLeftSpace.simps) simp
    ultimately have "s = (r @ pre) @ TrimLeftSpace s \<and> set (r @ pre) \<subseteq> spaceBytes"
      using pre by simp
    then show ?thesis by blast
  qed
qed

lemma TrimRightSpace_decomp:
  "\<exists>suf. s = TrimRightSpace s @ suf \<and> set suf \<subseteq> spaceBytes"
proof (induction s rule: TrimRightSpace.induct)
  case (1 s)
  show ?case
  proof (cases "trailingSpace s")
    case None
    then have "TrimRightSpace s = s" by (subst TrimRightSpace.simps) simp
    then show ?thesis by simp
  next
    case (Some r)
    let ?k = "length s - length r"
    from "1.IH"[OF Some] obtain suf where suf:
      "take ?k s = TrimRightSpace (take ?k s) @ suf"
      "set suf \<subseteq> spaceBytes" by blast
    from trailingSpace_Some[OF Some] have r: "r \<in> set spaceRunes" "suffix r s" by auto
    then have rs: "set r \<subseteq> spaceBytes" by (auto simp: spaceBytes_def)
    from r(2) have e1: "s = take ?k s @ r" by (auto simp: suffix_def)
    have e2: "TrimRightSpace s = TrimRightSpace (take ?k s)"
      using Some by (subst TrimRightSpace.simps) simp
    have "s = TrimRightSpace s @ (suf @ r)"
      by (metis e1 e2 suf(1) append.assoc)
    moreover have "set (suf @ r) \<subseteq> spaceBytes" using rs suf(2) by simp
    ultimately show ?thesis by blast
  qed
qed

lemma TrimSpace_decomp:
  "\<exists>pre suf. s = pre @ TrimSpace s @ suf \<and> set pre \<subseteq> spaceBytes \<and> set suf \<subseteq> spaceBytes"
proof -
  obtain pre where pre: "s = pre @ TrimLeftSpace s" "set pre \<subseteq> spaceBytes"
    using TrimLeftSpace_decomp by blast
  obtain suf where suf: "TrimLeftSpace s = TrimRightSpace (TrimLeftSpace s) @ suf"
    "set suf \<subseteq> spaceBytes"
    using TrimRightSpace_decomp by blast
  have "s = pre @ TrimSpace s @ suf"
    using pre(1) suf(1) by (simp add: TrimSpace_def)
  with pre(2) suf(2) show ?thesis by blast
qed

lemma sublist_strip_prefix:
  "sublist m (pre @ t) \<Longrightarrow> m \<noteq> [] \<Longrightarrow> hd m \<notin> set pre \<Longrightarrow> sublist m t"
proof (induction pre)
  case Nil
  then show ?case by simp
next
  case (Cons c pre)
  from Cons.prems(1) have "prefix m (c # pre @ t) \<or> sublist m (pre @ t)"
    by (simp add: sublist_Cons_right)
  moreover have "\<not> prefix m (c # pre @ t)"
    using Cons.prems(2,3) by (cases m) auto
  ultimately show ?case using Cons by simp
qed

lemma sublist_strip_suffix:
  assumes "sublist m (t @ suf)" "m \<noteq> []" "last m \<notin> set suf"
  shows "sublist m t"
proof -
  have "sublist (rev m) (rev suf @ rev t)"
    using assms(1) by (metis rev_append sublist_rev)
  moreover have "hd (rev m) \<notin> set (rev suf)"
    using assms(2,3) by (simp add: hd_rev)
  ultimately have "sublist (rev m) (rev t)"
    using assms(2) sublist_strip_prefix by (metis rev_is_Nil_conv)
  then show ?thesis by simp
qed

lemma sublist_TrimSpace:
  assumes "m \<noteq> []" "hd m \<notin> spaceBytes" "last m \<notin> spaceBytes"
  shows "sublist m (TrimSpace s) \<longleftrightarrow> sublist m s"
proof -
  obtain pre suf where d: "s = pre @ TrimSpace s @ suf" "set pre \<subseteq> spaceBytes"
    "set suf \<subseteq> spaceBytes"
    using TrimSpace_decomp by blast
  show ?thesis
  proof
    assume "sublist m (TrimSpace s)"
    then have "sublist m (pre @ TrimSpace s @ suf)"
      by (meson sublist_append_leftI sublist_append_rightI sublist_order.order.trans sublist_order.order_refl)
    with d(1) show "sublist m s" by simp
  next
    assume "sublist m s"
    with d(1) have "sublist m (pre @ TrimSpace s @ suf)" by simp
    then have "sublist m (TrimSpace s @ suf)"
      using sublist_strip_prefix assms(1,2) d(2) by blast
    then show "sublist m (TrimSpace s)"
      using sublist_strip_suffix assms(1,3) d(3) by blast
  qed
qed

lemma marker_in_TrimSpace:
  "sublist ''kubeadm join'' (TrimSpace s) \<longleftrightarrow> sublist ''kubeadm join'' s"
  by (rule sublist_TrimSpace) (simp_all add: spaceBytes_k)

section \<open>Facts about chained steps and about the two goroutines\<close>

lemma andThen_ok [simp]: "andThen (ok x) f = f x"
  by (cases "f x") (simp add: andThen_def ok_def)

lemma andThen_failWith [simp]: "andThen (failWith e) f = failWith e"
  by (simp add: andThen_def failWith_def)

lemma andThen_call [simp]: "andThen (call ev x) f = (fst (f x), ev # snd (f x))"
  by (cases "f x") (simp add: andThen_def call_def)

lemma fst_ok [simp]: "fst (ok x) = Inr x" "snd (ok x) = []"
  by (simp_all add: ok_def)

lemma fst_failWith [simp]: "fst (failWith e) = Inl e" "snd (failWith e) = []"
  by (simp_all add: failWith_def)

lemma fst_andThen_Inr:
  "fst (andThen m f) = Inr v \<Longrightarrow> \<exists>x t. m = (Inr x, t) \<and> fst (f x) = Inr v"
  by (cases m; cases "fst m") (auto simp: andThen_def split: prod.splits)

lemma runGoroutines_invariant:
  assumes stepM: "\<And>x r sh r' sh' t xs ys q.
        exec x (r, sh) = (Inr (r', sh'), t) \<Longrightarrow> I (x # xs) r ys q sh \<Longrightarrow> I xs r' ys q sh'"
    and stepN: "\<And>y r sh q' sh' t xs ys q.
        exec y (q, sh) = (Inr (q', sh'), t) \<Longrightarrow> I xs r (y # ys) q sh \<Longrightarrow> I xs r ys q' sh'"
  shows "I xs rm ys rn sh \<Longrightarrow> fst (runGoroutines sched xs rm ys rn sh) = Inr sh' \<Longrightarrow>
         \<exists>rm' rn'. I [] rm' [] rn' sh'"
proof (induction sched xs rm ys rn sh rule: runGoroutines.induct)
  case (1 sched rm rn sh)
  then show ?case by auto
next
  case (2 sched x xs rm rn sh)
  from fst_andThen_Inr[OF "2.prems"(2)[simplified]] obtain r' sh'' t where
    e: "exec x (rm, sh) = (Inr (r', sh''), t)"
    and f: "fst (runGoroutines sched xs r' [] rn sh'') = Inr sh'" by auto
  from stepM[OF e "2.prems"(1)] have "I xs r' [] rn sh''" .
  with "2.IH" f show ?case by blast
next
  case (3 sched rm y ys rn sh)
  from fst_andThen_Inr[OF "3.prems"(2)[simplified]] obtain r' sh'' t where
    e: "exec y (rn, sh) = (Inr (r', sh''), t)"
    and f: "fst (runGoroutines sched [] rm ys r' sh'') = Inr sh'" by auto
  from stepN[OF e "3.prems"(1)] have "I [] rm ys r' sh''" .
  with "3.IH" f show ?case by blast
next
  case (4 x xs rm y ys rn sh)
  from fst_andThen_Inr[OF "4.prems"(2)[simplified]] obtain r' sh'' t where
    e: "exec x (rm, sh) = (Inr (r', sh''), t)"
    and f: "fst (runGoroutines [] xs r' (y # ys) rn sh'') = Inr sh'" by auto
  from stepM[OF e "4.prems"(1)] have "I xs r' (y # ys) rn sh''" .
  with "4.IH" f show ?case by blast
next
  case (5 sched x xs rm y ys rn sh)
  from fst_andThen_Inr[OF "5.prems"(2)[simplified]] obtain r' sh'' t where
    e: "exec x (rm, sh) = (Inr (r', sh''), t)"
    and f: "fst (runGoroutines sched xs r' (y # ys) rn sh'') = Inr sh'" by auto
  from stepM[OF e "5.prems"(1)] have "I xs r' (y # ys) rn sh''" .
  with "5.IH" f show ?case by blast
next
  case (6 sched x xs rm y ys rn sh)
  from fst_andThen_Inr[OF "6.prems"(2)[simplified]] obtain r' sh'' t where
    e: "exec y (rn, sh) = (Inr (r', sh''), t)"
    and f: "fst (runGoroutines sched (x # xs) rm ys r' sh'') = Inr sh'" by auto
  from stepN[OF e "6.prems"(1)] have "I (x # xs) rm ys r' sh''" .
  with "6.IH" f show ?case by blast
qed


lemma andThen_exec:
  "andThen (exec x (r, sh)) k =
     (case x of
        CreateInstancesCall opt \<Rightarrow> (fst (k (r, sh)), Call_CreateInstances opt # snd (k (r, sh)))
      | ErrsLoad \<Rightarrow> k (r\<lparr>errsRead := errs sh\<rparr>, sh)
      | ErrsStore err \<Rightarrow> k (r, sh\<lparr>errs := errsRead r @ [err]\<rparr>)
      | MasterAssign instances \<Rightarrow>
          (case instances of
             [] \<Rightarrow> failWith indexPanic
           | i # _ \<Rightarrow> k (r, sh\<lparr>master := Some i\<rparr>))
      | MachinesLoad \<Rightarrow> k (r\<lparr>machinesRead := machines sh\<rparr>, sh)
      | MachinesStore mid \<Rightarrow> k (r, sh\<lparr>machines := machinesRead r @ [mid]\<rparr>)
      | NodesAppend machine \<Rightarrow> k (r, sh\<lparr>nodes := nodes sh @ [machine]\<rparr>))"
  by (cases x) (simp_all add: indexPanic_def split: list.splits)

lemma runGoroutines_panics:
  "MasterAssign [] \<in> set xs \<union> set ys \<Longrightarrow>
   fst (runGoroutines sched xs rm ys rn sh) = Inl indexPanic"
  by (induction sched xs rm ys rn sh rule: runGoroutines.induct)
     (auto simp: andThen_exec split: op.splits list.splits)

lemma runGoroutines_returns:
  "MasterAssign [] \<notin> set xs \<union> set ys \<Longrightarrow>
   \<exists>sh'. fst (runGoroutines sched xs rm ys rn sh) = Inr sh'"
  by (induction sched xs rm ys rn sh rule: runGoroutines.induct)
     (auto simp: andThen_exec split: op.splits list.splits)

lemma runGoroutines_events:
  "ev \<in> set (snd (runGoroutines sched xs rm ys rn sh)) \<Longrightarrow>
   \<exists>opt. ev = Call_CreateInstances opt \<and> CreateInstancesCall opt \<in> set xs \<union> set ys"
  by (induction sched xs rm ys rn sh rule: runGoroutines.induct)
     (auto simp: andThen_exec split: op.splits list.splits)

lemma exec_Inr_cases:
  assumes "exec x (r, sh) = (Inr (r', sh'), t)"
  shows "(x = ErrsLoad \<and> r' = r\<lparr>errsRead := errs sh\<rparr> \<and> sh' = sh) \<or>
         (\<exists>e. x = ErrsStore e \<and> r' = r \<and> sh' = sh\<lparr>errs := errsRead r @ [e]\<rparr>) \<or>
         (\<exists>i l. x = MasterAssign (i # l) \<and> r' = r \<and> sh' = sh\<lparr>master := Some i\<rparr>) \<or>
         (x = MachinesLoad \<and> r' = r\<lparr>machinesRead := machines sh\<rparr> \<and> sh' = sh) \<or>
         (\<exists>m. x = MachinesStore m \<and> r' = r \<and> sh' = sh\<lparr>machines := machinesRead r @ [m]\<rparr>) \<or>
         (\<exists>m. x = NodesAppend m \<and> r' = r \<and> sh' = sh\<lparr>nodes := nodes sh @ [m]\<rparr>) \<or>
         (\<exists>opt. x = CreateInstancesCall opt \<and> r' = r \<and> sh' = sh)"
  using assms by (cases x) (auto simp: ok_def call_def failWith_def split: list.splits)


lemma runGoroutines_errs_nonempty:
  assumes "errs sh \<noteq> [] \<or> (\<exists>e. ErrsStore e \<in> set xs \<union> set ys)"
    and "fst (runGoroutines sched xs rm ys rn sh) = Inr sh'"
  shows "errs sh' \<noteq> []"
proof -
  let ?I = "\<lambda>xs (rm::regs) ys (rn::regs) sh.
      errs sh \<noteq> [] \<or> (\<exists>e. ErrsStore e \<in> set xs \<union> set ys)"
  have "\<exists>rm' rn'. ?I [] rm' [] rn' sh'"
  proof (rule runGoroutines_invariant[where I = ?I, OF _ _ _ assms(2)])
    show "?I xs rm ys rn sh" using assms by blast
  next
    fix x r sh r' sh' t xs ys q
    assume "exec x (r, sh) = (Inr (r', sh'), t)" "?I (x # xs) r ys q sh"
    then show "?I xs r' ys q sh'" using exec_Inr_cases[of x r sh r' sh' t] by auto
  next
    fix y r sh q' sh' t xs ys q
    assume "exec y (q, sh) = (Inr (q', sh'), t)" "?I xs r (y # ys) q sh"
    then show "?I xs r ys q' sh'" using exec_Inr_cases[of y q sh q' sh' t] by auto
  qed
  then show ?thesis by simp
qed

lemma runGoroutines_errs_empty:
  assumes "errs sh = []" "\<forall>e. ErrsStore e \<notin> set xs \<union> set ys"
    and "fst (runGoroutines sched xs rm ys rn sh) = Inr sh'"
  shows "errs sh' = []"
proof -
  let ?I = "\<lambda>xs (rm::regs) ys (rn::regs) sh.
      errs sh = [] \<and> (\<forall>e. ErrsStore e \<notin> set xs \<union> set ys)"
  have "\<exists>rm' rn'. ?I [] rm' [] rn' sh'"
  proof (rule runGoroutines_invariant[where I = ?I, OF _ _ _ assms(3)])
    show "?I xs rm ys rn sh" using assms by blast
  next
    fix x r sh r' sh' t xs ys q
    assume "exec x (r, sh) = (Inr (r', sh'), t)" "?I (x # xs) r ys q sh"
    then show "?I xs r' ys q sh'" using exec_Inr_cases[of x r sh r' sh' t] by auto
  next
    fix y r sh q' sh' t xs ys q
    assume "exec y (q, sh) = (Inr (q', sh'), t)" "?I xs r (y # ys) q sh"
    then show "?I xs r ys q' sh'" using exec_Inr_cases[of y q sh q' sh' t] by auto
  qed
  then show ?thesis by simp
qed

lemma runGoroutines_master:
  assumes "master sh = Some i \<or> (\<exists>l. MasterAssign (i # l) \<in> set xs \<union> set ys)"
    and "\<forall>l. MasterAssign l \<in> set xs \<union> set ys \<longrightarrow> (\<exists>l'. l = i # l')"
    and "fst (runGoroutines sched xs rm ys rn sh) = Inr sh'"
  shows "master sh' = Some i"
proof -
  let ?I = "\<lambda>xs (rm::regs) ys (rn::regs) sh.
      (master sh = Some i \<or> (\<exists>l. MasterAssign (i # l) \<in> set xs \<union> set ys)) \<and>
      (\<forall>l. MasterAssign l \<in> set xs \<union> set ys \<longrightarrow> (\<exists>l'. l = i # l'))"
  have "\<exists>rm' rn'. ?I [] rm' [] rn' sh'"
  proof (rule runGoroutines_invariant[where I = ?I, OF _ _ _ assms(3)])
    show "?I xs rm ys rn sh" using assms by blast
  next
    fix x r sh r' sh' t xs ys q
    assume "exec x (r, sh) = (Inr (r', sh'), t)" "?I (x # xs) r ys q sh"
    then show "?I xs r' ys q sh'" using exec_Inr_cases[of x r sh r' sh' t] by auto
  next
    fix y r sh q' sh' t xs ys q
    assume "exec y (q, sh) = (Inr (q', sh'), t)" "?I xs r (y # ys) q sh"
    then show "?I xs r ys q' sh'" using exec_Inr_cases[of y q sh q' sh' t] by auto
  qed
  then show ?thesis by simp
qed

lemma runGoroutines_nodes:
  assumes "appended xs = []"
    and "fst (runGoroutines sched xs rm ys rn sh) = Inr sh'"
  shows "nodes sh' = nodes sh @ appended ys"
proof -
  let ?N = "nodes sh @ appended ys"
  let ?I = "\<lambda>xs (rm::regs) ys (rn::regs) sh.
      nodes sh @ appended ys = ?N \<and> appended xs = []"
  have "\<exists>rm' rn'. ?I [] rm' [] rn' sh'"
  proof (rule runGoroutines_invariant[where I = ?I, OF _ _ _ assms(2)])
    show "?I xs rm ys rn sh" using assms by blast
  next
    fix x r sh r' sh' t xs ys q
    assume "exec x (r, sh) = (Inr (r', sh'), t)" "?I (x # xs) r ys q sh"
    then show "?I xs r' ys q sh'" using exec_Inr_cases[of x r sh r' sh' t] by auto
  next
    fix y r sh q' sh' t xs ys q
    assume "exec y (q, sh) = (Inr (q', sh'), t)" "?I xs r (y # ys) q sh"
    then show "?I xs r ys q' sh'" using exec_Inr_cases[of y q sh q' sh' t] by auto
  qed
  then show ?thesis by simp
qed

lemma masterOps_MasterAssign:
  "MasterAssign l \<in> set (masterOps a mo) \<longleftrightarrow> CreateInstances a mo = Inr l"
  by (auto simp: masterOps_def split: sum.splits list.splits)

lemma nodesOps_MasterAssign: "MasterAssign l \<notin> set (nodesOps a no)"
  by (auto simp: nodesOps_def split: sum.splits)

lemma masterOps_ErrsStore:
  "ErrsStore e \<in> set (masterOps a mo) \<longleftrightarrow> CreateInstances a mo = Inl e"
  by (auto simp: masterOps_def split: sum.splits list.splits)

lemma nodesOps_ErrsStore:
  "ErrsStore e \<in> set (nodesOps a no) \<longleftrightarrow> CreateInstances a no = Inl e"
  by (auto simp: nodesOps_def split: sum.splits)

lemma masterOps_call:
  "CreateInstancesCall opt \<in> set (masterOps a mo) \<longleftrightarrow> opt = mo"
  by (auto simp: masterOps_def split: sum.splits list.splits)

lemma nodesOps_call:
  "CreateInstancesCall opt \<in> set (nodesOps a no) \<longleftrightarrow> opt = no"
  by (auto simp: nodesOps_def split: sum.splits)

lemma appended_masterOps: "appended (masterOps a mo) = []"
  by (simp add: masterOps_def split: sum.splits list.splits)

lemma appended_loop:
  "appended (concat (map (\<lambda>machine. [MachinesLoad, MachinesStore (ID machine),
      NodesAppend machine]) ns)) = ns"
  by (induction ns) simp_all

lemma appended_nodesOps:
  "appended (nodesOps a no) = (case CreateInstances a no of Inl e \<Rightarrow> [] | Inr ns \<Rightarrow> ns)"
  by (simp add: nodesOps_def appended_loop split: sum.splits)

lemma provision_events:
  assumes "ev \<in> set (snd (provision a sched opt preset keyid))"
  shows "ev = Call_CreateInstances (createMasterOpt opt preset keyid) \<or>
         ev = Call_CreateInstances (createNodesOpt opt preset keyid)"
  using runGoroutines_events[OF assms[unfolded provision_def]]
  by (auto simp: masterOps_call nodesOps_call)

lemma provision_panics:
  assumes "CreateInstances a (createMasterOpt opt preset keyid) = Inr []"
  shows "fst (provision a sched opt preset keyid) = Inl indexPanic"
  unfolding provision_def
  by (rule runGoroutines_panics) (simp add: masterOps_MasterAssign assms)

lemma provision_returns:
  assumes "CreateInstances a (createMasterOpt opt preset keyid) \<noteq> Inr []"
  shows "\<exists>sh. fst (provision a sched opt preset keyid) = Inr sh"
  unfolding provision_def
  by (rule runGoroutines_returns)
     (simp add: masterOps_MasterAssign nodesOps_MasterAssign assms)

lemma provision_errs_nonempty:
  assumes "fst (provision a sched opt preset keyid) = Inr sh"
    and "CreateInstances a (createMasterOpt opt preset keyid) = Inl e \<or>
         CreateInstances a (createNodesOpt opt preset keyid) = Inl e"
  shows "errs sh \<noteq> []"
  using assms(2)
  by (intro runGoroutines_errs_nonempty[OF _ assms(1)[unfolded provision_def]])
     (auto simp: masterOps_ErrsStore nodesOps_ErrsStore)


lemma provision_errs_empty:
  assumes "fst (provision a sched opt preset keyid) = Inr sh"
    and "CreateInstances a (createMasterOpt opt preset keyid) = Inr ms"
    and "CreateInstances a (createNodesOpt opt preset keyid) = Inr ns"
  shows "errs sh = []"
  by (rule runGoroutines_errs_empty[OF _ _ assms(1)[unfolded provision_def]])
     (auto simp: masterOps_ErrsStore nodesOps_ErrsStore assms)

lemma provision_master:
  assumes "fst (provision a sched opt preset keyid) = Inr sh"
    and "CreateInstances a (createMasterOpt opt preset keyid) = Inr (i # l)"
  shows "master sh = Some i"
  by (rule runGoroutines_master[OF _ _ assms(1)[unfolded provision_def]])
     (auto simp: masterOps_MasterAssign nodesOps_MasterAssign assms)

lemma provision_nodes:
  assumes "fst (provision a sched opt preset keyid) = Inr sh"
    and "CreateInstances a (createNodesOpt opt preset keyid) = Inr ns"
  shows "nodes sh = ns"
  using runGoroutines_nodes[OF appended_masterOps assms(1)[unfolded provision_def]]
  by (simp add: appended_nodesOps assms)


lemma andThen_Inl: "m = (Inl e, t) \<Longrightarrow> andThen m f = (Inl e, t)"
  by (simp add: andThen_def)

lemma andThen_eq_Inr:
  assumes "andThen m f = (Inr v, t)"
  obtains x t1 t2 where "m = (Inr x, t1)" "f x = (Inr v, t2)" "t = t1 @ t2"
  using assms by (cases m; cases "fst m") (auto simp: andThen_def split: prod.splits)

lemma orLog_Inr [simp]: "orLog (Inr x, t) format args = (Inr x, t)"
  by (simp add: orLog_def)

lemma orLog_Error [simp]:
  "orLog (Inl (Error e), t) format args = (Inl (Error e), t @ [Klog_Error format args])"
  by (simp add: orLog_def)

lemma orLog_Panic [simp]: "orLog (Inl (Panic p), t) format args = (Inl (Panic p), t)"
  by (simp add: orLog_def)

lemma orLog_eq_Inr: "orLog m format args = (Inr x, t) \<longleftrightarrow> m = (Inr x, t)"
  by (cases m; cases "fst m") (auto simp: orLog_def split: failure.splits)

lemma in_snd_andThen:
  assumes "ev \<in> set (snd (andThen m f))"
  shows "ev \<in> set (snd m) \<or> (\<exists>x. fst m = Inr x \<and> ev \<in> set (snd (f x)))"
proof (cases m)
  case (Pair r t)
  show ?thesis
  proof (cases r)
    case (Inl e)
    with Pair assms show ?thesis by (simp add: andThen_def)
  next
    case (Inr x)
    with Pair assms have "ev \<in> set t \<or> ev \<in> set (snd (f x))"
      by (cases "f x") (auto simp: andThen_def)
    with Pair Inr show ?thesis by auto
  qed
qed




lemma andThen_Inr_pair [simp]: "andThen (Inr x, t) f = (fst (f x), t @ snd (f x))"
  by (cases "f x") (simp add: andThen_def)

lemma andThen_Inl_pair [simp]: "andThen (Inl e, t) f = (Inl e, t)"
  by (simp add: andThen_def)

lemma provision_master_present:
  assumes "fst (provision a sched opt preset keyid) = Inr sh" "errs sh = []"
  shows "\<exists>i l. CreateInstances a (createMasterOpt opt preset keyid) = Inr (i # l) \<and>
                master sh = Some i"
proof (cases "CreateInstances a (createMasterOpt opt preset keyid)")
  case (Inl e)
  then show ?thesis using provision_errs_nonempty[OF assms(1)] assms(2) by blast
next
  case (Inr ms)
  show ?thesis
  proof (cases ms)
    case Nil
    with Inr show ?thesis using provision_panics[of a opt preset keyid sched] assms(1) by simp
  next
    case (Cons i l)
    with Inr show ?thesis using provision_master[OF assms(1)] by blast
  qed
qed

section \<open>Facts about the join loop, the export and whole runs\<close>

lemma joinNodes_all_joined:
  "\<forall>n\<in>set ns. snd (QuickConnectAndRun a (IP n) (''swapoff -a; '' @ joinCmd)) = None \<Longrightarrow>
   joinNodes a joinCmd ns =
     (Inr (), map (\<lambda>n. Call_QuickConnectAndRun (IP n) (''swapoff -a; '' @ joinCmd)) ns)"
proof (induction ns)
  case Nil
  then show ?case by (simp add: ok_def)
next
  case (Cons n ns)
  then have "snd (QuickConnectAndRun a (IP n) (''swapoff -a; '' @ joinCmd)) = None"
    and "joinNodes a joinCmd ns =
     (Inr (), map (\<lambda>n. Call_QuickConnectAndRun (IP n) (''swapoff -a; '' @ joinCmd)) ns)"
    by simp_all
  then show ?case
    by (cases "QuickConnectAndRun a (IP n) (''swapoff -a; '' @ joinCmd)") simp
qed

lemma joinNodes_first_failure:
  "\<forall>n\<in>set pre. snd (QuickConnectAndRun a (IP n) (''swapoff -a; '' @ joinCmd)) = None \<Longrightarrow>
   snd (QuickConnectAndRun a (IP b) (''swapoff -a; '' @ joinCmd)) = Some e \<Longrightarrow>
   joinNodes a joinCmd (pre @ b # post) =
     (Inl (Error e),
      map (\<lambda>n. Call_QuickConnectAndRun (IP n) (''swapoff -a; '' @ joinCmd)) pre @
      [Call_QuickConnectAndRun (IP b) (''swapoff -a; '' @ joinCmd),
       Klog_Error ''Failed to join %s %s to cluster'' [ID b, IP b]])"
proof (induction pre)
  case Nil
  then show ?case
    by (cases "QuickConnectAndRun a (IP b) (''swapoff -a; '' @ joinCmd)")
       (simp add: klogError_def failWith_def)
next
  case (Cons n pre)
  then have "snd (QuickConnectAndRun a (IP n) (''swapoff -a; '' @ joinCmd)) = None"
    and "joinNodes a joinCmd (pre @ b # post) =
     (Inl (Error e),
      map (\<lambda>n. Call_QuickConnectAndRun (IP n) (''swapoff -a; '' @ joinCmd)) pre @
      [Call_QuickConnectAndRun (IP b) (''swapoff -a; '' @ joinCmd),
       Klog_Error ''Failed to join %s %s to cluster'' [ID b, IP b]])"
    by simp_all
  then show ?case
    by (cases "QuickConnectAndRun a (IP n) (''swapoff -a; '' @ joinCmd)") simp
qed

lemma all_events_andThen:
  assumes "\<forall>ev\<in>set (snd m). P ev"
    and "\<And>x. fst m = Inr x \<Longrightarrow> \<forall>ev\<in>set (snd (f x)). P ev"
  shows "\<forall>ev\<in>set (snd (andThen m f)). P ev"
  using assms in_snd_andThen[of _ m f] by blast

lemma all_events_orLog:
  assumes "\<forall>ev\<in>set (snd m). P ev" and "P (Klog_Error format args)"
  shows "\<forall>ev\<in>set (snd (orLog m format args)). P ev"
  using assms by (cases m; cases "fst m") (auto simp: orLog_def split: failure.splits)

lemma resolveTag_no_write: "ev \<in> set (snd (resolveTag a name)) \<Longrightarrow> \<not> writesFile ev"
  by (auto simp: resolveTag_def Let_def andThen_def call_def klogError_def failWith_def ok_def
      split: sum.splits option.splits)

lemma prepareSSHKey_no_write: "ev \<in> set (snd (prepareSSHKey a useExistKey)) \<Longrightarrow> \<not> writesFile ev"
  by (auto simp: prepareSSHKey_def Let_def andThen_def call_def klogError_def failWith_def ok_def
      split: sum.splits option.splits if_splits)

lemma provision_no_write:
  "ev \<in> set (snd (provision a sched opt preset keyid)) \<Longrightarrow> \<not> writesFile ev"
  using provision_events by fastforce

lemma bootstrapMaster_no_write:
  "ev \<in> set (snd (bootstrapMaster a masterPtr opt)) \<Longrightarrow> \<not> writesFile ev"
  by (auto simp: bootstrapMaster_def deref_def andThen_def call_def klogError_def failWith_def
      ok_def split: sum.splits option.splits prod.splits)

lemma applyCNI_no_write:
  "ev \<in> set (snd (applyCNI a cni yamlPath masterip)) \<Longrightarrow> \<not> writesFile ev"
  by (auto simp: applyCNI_def Let_def andThen_def call_def failWith_def ok_def
      split: sum.splits option.splits prod.splits)

lemma joinNodes_no_write:
  "ev \<in> set (snd (joinNodes a joinCmd ns)) \<Longrightarrow> \<not> writesFile ev"
  by (induction ns arbitrary: ev)
     (auto simp: andThen_def call_def klogError_def failWith_def ok_def
      split: sum.splits option.splits prod.splits)

lemma in_snd_andThenE:
  assumes "ev \<in> set (snd (andThen m f))"
  obtains "ev \<in> set (snd m)" | x where "fst m = Inr x" "ev \<in> set (snd (f x))"
  using in_snd_andThen[OF assms] by blast

lemma in_snd_orLogE:
  assumes "ev \<in> set (snd (orLog m format args))"
  obtains "ev \<in> set (snd m)" | "ev = Klog_Error format args"
  using assms by (cases m; cases "fst m") (auto simp: orLog_def split: failure.splits)

lemma runCreate_no_write:
  assumes "\<not> ScpKubeConfigToLocal opt" "ev \<in> set (snd (runCreate a sched opt))"
  shows "\<not> writesFile ev"
  using assms unfolding runCreate_def
  apply (auto elim!: in_snd_andThenE in_snd_orLogE
      simp: call_def failWith_def ok_def deref_def
      split: option.splits if_splits)
  apply (blast dest: resolveTag_no_write prepareSSHKey_no_write provision_no_write
      bootstrapMaster_no_write applyCNI_no_write joinNodes_no_write)+
  done


lemma provision_Scp [simp]:
  "provision a sched (opt\<lparr>ScpKubeConfigToLocal := b\<rparr>) preset keyid
     = provision a sched opt preset keyid"
  by (simp add: provision_def createMasterOpt_def createNodesOpt_def)

lemma bootstrapMaster_Scp [simp]:
  "bootstrapMaster a masterPtr (opt\<lparr>ScpKubeConfigToLocal := b\<rparr>)
     = bootstrapMaster a masterPtr opt"
  by (simp add: bootstrapMaster_def)

lemma deref_eq_Inr: "deref p = (Inr x, t) \<longleftrightarrow> p = Some x \<and> t = []"
  by (cases p) (auto simp: deref_def ok_def failWith_def)

lemma call_eq_Inr: "call ev x = (Inr y, t) \<longleftrightarrow> y = x \<and> t = [ev]"
  by (auto simp: call_def)

lemma runCreate_succeeds:
  assumes "runCreate a sched opt = (Inr (), t)"
  shows "\<exists>tagID keyid preset sh joinCmd m t1 t2 t3 t5 t6 t7 t8.
     resolveTag a (ClusterName opt) = (Inr tagID, t1) \<and>
     prepareSSHKey a (UseExistKey opt) = (Inr keyid, t2) \<and>
     PresetKubernetes (KubernetesVersion opt) = Some preset \<and>
     provision a sched opt preset keyid = (Inr sh, t3) \<and>
     errs sh = [] \<and>
     TagInstances a tagID (machines sh) = None \<and>
     bootstrapMaster a (master sh) opt = (Inr joinCmd, t5) \<and>
     master sh = Some m \<and>
     applyCNI a (CNIName (NetworkOption opt)) (CNIYamlPath preset) (IP m) = (Inr (), t6) \<and>
     joinNodes a joinCmd (nodes sh) = (Inr (), t7) \<and>
     (if ScpKubeConfigToLocal opt
      then transferKubeconfigToLocal a (IP m) (LocalKubeConfigPath opt) = (Inr (), t8)
      else t8 = []) \<and>
     t = t1 @ t2 @ t3 @ [Call_TagInstances tagID (machines sh)] @ t5 @ t6 @ t7 @ t8"
  using assms unfolding runCreate_def
  by (auto elim!: andThen_eq_Inr split: option.splits if_splits
      simp: orLog_eq_Inr deref_eq_Inr call_eq_Inr failWith_def ok_def
      simp del: andThen_call)


lemma transferKubeconfigToLocal_result:
  "orLog (transferKubeconfigToLocal a masterip localPath) ''Failed to transfer kubeconfig'' [] =
     (case QuickConnectAndRun a masterip ''cat /etc/kubernetes/admin.conf'' of
        (bytes, Some e) \<Rightarrow>
          (Inl (Error e),
           [Call_QuickConnectAndRun masterip ''cat /etc/kubernetes/admin.conf'',
            Klog_Error bytes [], Klog_Error ''Failed to transfer kubeconfig'' []])
      | (bytes, None) \<Rightarrow>
          (case WriteFile a (localPath @ ''/kubeconfig'') bytes mode0600 of
             Some e \<Rightarrow>
               (Inl (Error e),
                [Call_QuickConnectAndRun masterip ''cat /etc/kubernetes/admin.conf'',
                 Call_WriteFile (localPath @ ''/kubeconfig'') bytes mode0600,
                 Klog_Error ''Failed to write kubeconfig'' [],
                 Klog_Error ''Failed to transfer kubeconfig'' []])
           | None \<Rightarrow>
               (Inr (),
                [Call_QuickConnectAndRun masterip ''cat /etc/kubernetes/admin.conf'',
                 Call_WriteFile (localPath @ ''/kubeconfig'') bytes mode0600])))"
  by (simp add: transferKubeconfigToLocal_def klogError_def failWith_def ok_def
      split: prod.splits option.splits)

section \<open>Command generation\<close>

text \<open>
  Claim C5. \<^verbatim>\<open>generateKubeadmInitCmd\<close>: with a non-empty pod CIDR \<open>c\<close> and the CNI
  name "calico" or "flannel" the result is exactly
  \<^verbatim>\<open>kubeadm init --pod-network-cidr=\<close>\<open>c\<close>\<^verbatim>\<open> --kubernetes-version=v\<close>\<open>v\<close>; an empty CIDR
  gives the error "Must specify a network for pod" (the spec's MissingPodCIDR) whatever
  the CNI name; any other CNI name, the CIDR given, gives the error "CNI plugin ... is
  not supported right now" (the spec's UnsupportedCNI). Both checks come before any
  remote execution: when the generation fails, \<^verbatim>\<open>bootstrapMaster\<close> returns that error
  and has called nothing.
\<close>

theorem generateKubeadmInitCmd_spec:
  "(PodNetWorkCIDR n \<noteq> [] \<and> (CNIName n = ''calico'' \<or> CNIName n = ''flannel'') \<longrightarrow>
      generateKubeadmInitCmd n v =
        Inr (''kubeadm init --pod-network-cidr='' @ PodNetWorkCIDR n
             @ '' --kubernetes-version=v'' @ v)) \<and>
   (PodNetWorkCIDR n = [] \<longrightarrow>
      generateKubeadmInitCmd n v = Inl ''Must specify a network for pod'') \<and>
   (PodNetWorkCIDR n \<noteq> [] \<and> CNIName n \<noteq> ''calico'' \<and> CNIName n \<noteq> ''flannel'' \<longrightarrow>
      generateKubeadmInitCmd n v =
        Inl (''CNI plugin '' @ CNIName n @ '' is not supported right now'')) \<and>
   (\<forall>a masterPtr opt err.
      generateKubeadmInitCmd (NetworkOption opt) (KubernetesVersion opt) = Inl err \<longrightarrow>
      bootstrapMaster a masterPtr opt = (Inl (Error err), []))"
  by (auto simp: generateKubeadmInitCmd_def CalicoCNI_def FlannelCNI_def bootstrapMaster_def
      failWith_def)

theorem generateKubeadmInitCmd_spec_witness:
  "generateKubeadmInitCmd \<lparr>CNIName = ''calico'', PodNetWorkCIDR = ''10.244.0.0/16''\<rparr> ''1.15.2''
     = Inr ''kubeadm init --pod-network-cidr=10.244.0.0/16 --kubernetes-version=v1.15.2'' \<and>
   generateKubeadmInitCmd \<lparr>CNIName = ''flannel'', PodNetWorkCIDR = []\<rparr> ''1.15.2''
     = Inl ''Must specify a network for pod'' \<and>
   generateKubeadmInitCmd \<lparr>CNIName = ''weave'', PodNetWorkCIDR = ''10.244.0.0/16''\<rparr> ''1.15.2''
     = Inl ''CNI plugin weave is not supported right now'' \<and>
   bootstrapMaster demoEnv (Some demoMaster) weaveOpt
     = (Inl (Error ''CNI plugin weave is not supported right now''), [])"
proof -
  have w: "generateKubeadmInitCmd (NetworkOption weaveOpt) (KubernetesVersion weaveOpt)
      = Inl ''CNI plugin weave is not supported right now''"
    by code_simp
  from generateKubeadmInitCmd_spec
      [of "\<lparr>CNIName = ''calico'', PodNetWorkCIDR = ''10.244.0.0/16''\<rparr>" "''1.15.2''"]
    generateKubeadmInitCmd_spec
      [of "\<lparr>CNIName = ''flannel'', PodNetWorkCIDR = []\<rparr>" "''1.15.2''"]
    generateKubeadmInitCmd_spec
      [of "\<lparr>CNIName = ''weave'', PodNetWorkCIDR = ''10.244.0.0/16''\<rparr>" "''1.15.2''"] w
  show ?thesis by simp
qed

section \<open>Extraction of the join directive\<close>

text \<open>
  Claim C6. When the marker "kubeadm join" occurs in the output, \<^verbatim>\<open>GetKubeJoinFromOutput\<close>
  returns the trimmed output from the last occurrence of the marker on: the index \<open>i\<close>
  that \<^verbatim>\<open>LastIndex\<close> finds in the trimmed output is a position of the marker, no later
  position is one, and the result is the trimmed output without its first \<open>i\<close> bytes.
  On the output of the spec's example the result is exactly
  "kubeadm join 10.0.0.1:6443 --token abc".
\<close>

theorem GetKubeJoinFromOutput_last_marker:
  "(sublist ''kubeadm join'' output \<longrightarrow>
      (\<exists>i. LastIndex (TrimSpace output) ''kubeadm join'' = int i \<and>
           prefix ''kubeadm join'' (drop i (TrimSpace output)) \<and>
           (\<forall>j>i. \<not> prefix ''kubeadm join'' (drop j (TrimSpace output))) \<and>
           GetKubeJoinFromOutput output = Inr (drop i (TrimSpace output)))) \<and>
   GetKubeJoinFromOutput ''...\<newline>kubeadm join 10.0.0.1:6443 --token abc\<newline>''
     = Inr ''kubeadm join 10.0.0.1:6443 --token abc''"
proof (intro conjI impI)
  assume "sublist ''kubeadm join'' output"
  then have "sublist ''kubeadm join'' (TrimSpace output)"
    by (simp add: marker_in_TrimSpace)
  from LastIndex_found[OF this] obtain i where i:
    "LastIndex (TrimSpace output) ''kubeadm join'' = int i"
    "i + length ''kubeadm join'' \<le> length (TrimSpace output)"
    "prefix ''kubeadm join'' (drop i (TrimSpace output))"
    "\<forall>j>i. \<not> prefix ''kubeadm join'' (drop j (TrimSpace output))"
    by auto
  from i(1,2) have "GetKubeJoinFromOutput output = Inr (drop i (TrimSpace output))"
    by (simp add: GetKubeJoinFromOutput_def sliceFrom_def Let_def)
  with i show "\<exists>i. LastIndex (TrimSpace output) ''kubeadm join'' = int i \<and>
           prefix ''kubeadm join'' (drop i (TrimSpace output)) \<and>
           (\<forall>j>i. \<not> prefix ''kubeadm join'' (drop j (TrimSpace output))) \<and>
           GetKubeJoinFromOutput output = Inr (drop i (TrimSpace output))"
    by blast
next
  show "GetKubeJoinFromOutput ''...\<newline>kubeadm join 10.0.0.1:6443 --token abc\<newline>''
     = Inr ''kubeadm join 10.0.0.1:6443 --token abc''"
    by code_simp
qed

theorem GetKubeJoinFromOutput_last_marker_witness:
  "sublist ''kubeadm join'' '' kubeadm join old\<newline>kubeadm join new \<newline>'' \<and>
   GetKubeJoinFromOutput '' kubeadm join old\<newline>kubeadm join new \<newline>''
     = Inr ''kubeadm join new''"
proof -
  let ?out = "'' kubeadm join old\<newline>kubeadm join new \<newline>''"
  have h: "sublist ''kubeadm join'' ?out" by code_simp
  from GetKubeJoinFromOutput_last_marker[of ?out] h obtain i where
    "LastIndex (TrimSpace ?out) ''kubeadm join'' = int i"
    "GetKubeJoinFromOutput ?out = Inr (drop i (TrimSpace ?out))" by blast
  moreover have "LastIndex (TrimSpace ?out) ''kubeadm join'' = 17" by code_simp
  moreover have "drop 17 (TrimSpace ?out) = ''kubeadm join new''" by code_simp
  ultimately show ?thesis using h by simp
qed

text \<open>
  Claim C1. When the marker does not occur in the output, \<^verbatim>\<open>LastIndex\<close> answers -1 and
  the slice expression \<^verbatim>\<open>output[index:]\<close> panics. The extraction returns no string,
  but it returns no error value either: \<^verbatim>\<open>bootstrapMaster\<close>, once the remote command
  has run, ends in the run-time panic and not in an error it could hand to its caller.
\<close>

theorem GetKubeJoinFromOutput_without_marker_panics:
  assumes "\<not> sublist ''kubeadm join'' output"
  shows "GetKubeJoinFromOutput output = Inl (Panic ''runtime error: slice bounds out of range'') \<and>
    (\<forall>a m opt cmd.
       generateKubeadmInitCmd (NetworkOption opt) (KubernetesVersion opt) = Inr cmd \<and>
       QuickConnectAndRun a (IP m) (''swapoff -a;'' @ cmd) = (output, None) \<longrightarrow>
       bootstrapMaster a (Some m) opt =
         (Inl (Panic ''runtime error: slice bounds out of range''),
          [Call_QuickConnectAndRun (IP m) (''swapoff -a;'' @ cmd)]))"
proof -
  from assms have "\<not> sublist ''kubeadm join'' (TrimSpace output)"
    by (simp add: marker_in_TrimSpace)
  then have "LastIndex (TrimSpace output) ''kubeadm join'' = - 1"
    using LastIndex_none[of "''kubeadm join''" "TrimSpace output"] by simp
  then have p: "GetKubeJoinFromOutput output = Inl (Panic ''runtime error: slice bounds out of range'')"
    by (simp add: GetKubeJoinFromOutput_def sliceFrom_def Let_def)
  then show ?thesis
    by (simp add: bootstrapMaster_def andThen_def deref_def ok_def call_def failWith_def)
qed

theorem GetKubeJoinFromOutput_without_marker_panics_witness:
  "\<not> sublist ''kubeadm join'' ''[init] Using Kubernetes version: v1.15.2'' \<and>
   GetKubeJoinFromOutput ''[init] Using Kubernetes version: v1.15.2''
     = Inl (Panic ''runtime error: slice bounds out of range'') \<and>
   bootstrapMaster noMarkerEnv (Some demoMaster) demoOpt =
     (Inl (Panic ''runtime error: slice bounds out of range''),
      [Call_QuickConnectAndRun ''10.0.0.1''
         ''swapoff -a;kubeadm init --pod-network-cidr=10.244.0.0/16 --kubernetes-version=v1.15.2'']) \<and>
   fst (runCreate noMarkerEnv [] demoOpt) =
     Inl (Panic ''runtime error: slice bounds out of range'')"
proof -
  let ?cmd = "''kubeadm init --pod-network-cidr=10.244.0.0/16 --kubernetes-version=v1.15.2''"
  have h: "\<not> sublist ''kubeadm join'' ''[init] Using Kubernetes version: v1.15.2''"
    by code_simp
  have g: "generateKubeadmInitCmd (NetworkOption demoOpt) (KubernetesVersion demoOpt) = Inr ?cmd"
    by code_simp
  have q: "QuickConnectAndRun noMarkerEnv (IP demoMaster) (''swapoff -a;'' @ ?cmd)
      = (''[init] Using Kubernetes version: v1.15.2'', None)"
    by code_simp
  have r: "fst (runCreate noMarkerEnv [] demoOpt) =
     Inl (Panic ''runtime error: slice bounds out of range'')"
    by code_simp
  from GetKubeJoinFromOutput_without_marker_panics[OF h] g q
  have "GetKubeJoinFromOutput ''[init] Using Kubernetes version: v1.15.2''
     = Inl (Panic ''runtime error: slice bounds out of range'')"
    and "bootstrapMaster noMarkerEnv (Some demoMaster) demoOpt =
         (Inl (Panic ''runtime error: slice bounds out of range''),
          [Call_QuickConnectAndRun (IP demoMaster) (''swapoff -a;'' @ ?cmd)])"
    by blast+
  with h r show ?thesis by (simp add: demoMaster_def)
qed


section \<open>The barrier after provisioning\<close>



section \<open>The version check\<close>

text \<open>
  Claim C2 says that a version outside the preset catalog is refused before the tag is
  resolved and before the key is prepared. In \<^verbatim>\<open>runCreate\<close> the check stands after
  both. The run below asks for version 1.14.0, which the catalog does not have: the tag
  is looked up and created and the key pair is created before the run ends with
  "Currently we do not support k8s version 1.14.0".
\<close>

theorem runCreate_unsupported_version_counterexample:
  "PresetKubernetes ''1.14.0'' = None \<and>
   runCreate demoEnv [] (demoOpt\<lparr>KubernetesVersion := ''1.14.0''\<rparr>) =
     (Inl (Error ''Currently we do not support k8s version 1.14.0''),
      [Call_GetTagClusterByName ''K8S-Cluster-demo'', Call_CreateTag ''K8S-Cluster-demo'',
       Call_ReadFile ''/root/.ssh/id_rsa.pub'',
       Call_CreateSSHKey ''DO_NOT_REMOVE_K8S_KEY'' ''ssh-rsa AAAA''])"
  by code_simp

text \<open>
  Claim C2, as the code has it. For a version that is not a key of the catalog,
  \<^verbatim>\<open>runCreate\<close> first resolves the tag (its first call is the lookup of the tag by
  name) and prepares the key. When both succeed, it fails with the error "Currently we
  do not support k8s version ..." that names the version (the spec's
  UnsupportedVersion), and it has done nothing but the tag resolution and the key
  preparation: no instance is created. When the tag resolution or the key preparation
  fails, that failure is the result.
\<close>

theorem runCreate_unsupported_version:
  assumes "PresetKubernetes (KubernetesVersion opt) = None"
  shows "(resolveTag a (ClusterName opt) = (Inl f, t1) \<longrightarrow> runCreate a sched opt = (Inl f, t1)) \<and>
     (resolveTag a (ClusterName opt) = (Inr tagID, t1) \<and>
      prepareSSHKey a (UseExistKey opt) = (Inl f, t2) \<longrightarrow>
        runCreate a sched opt = (Inl f, t1 @ t2)) \<and>
     (resolveTag a (ClusterName opt) = (Inr tagID, t1) \<and>
      prepareSSHKey a (UseExistKey opt) = (Inr keyid, t2) \<longrightarrow>
        runCreate a sched opt =
          (Inl (Error (''Currently we do not support k8s version '' @ KubernetesVersion opt)),
           t1 @ t2)) \<and>
     hd (snd (runCreate a sched opt)) = Call_GetTagClusterByName (tagName (ClusterName opt))"
proof -
  have "hd (snd (resolveTag a (ClusterName opt))) =
      Call_GetTagClusterByName (tagName (ClusterName opt)) \<and>
      snd (resolveTag a (ClusterName opt)) \<noteq> []"
    by (simp add: resolveTag_def Let_def call_def split: sum.splits option.splits)
  then have "hd (snd (runCreate a sched opt)) =
      Call_GetTagClusterByName (tagName (ClusterName opt))"
    by (cases "resolveTag a (ClusterName opt)"; cases "fst (resolveTag a (ClusterName opt))")
       (auto simp: runCreate_def)
  then show ?thesis using assms
    by (auto simp: runCreate_def failWith_def)
qed

theorem runCreate_unsupported_version_witness:
  "PresetKubernetes ''2.0.0'' = None \<and>
   runCreate taggedEnv [] (demoOpt\<lparr>KubernetesVersion := ''2.0.0''\<rparr>) =
     (Inl (Error ''Currently we do not support k8s version 2.0.0''),
      [Call_GetTagClusterByName ''K8S-Cluster-demo'',
       Call_ReadFile ''/root/.ssh/id_rsa.pub'',
       Call_CreateSSHKey ''DO_NOT_REMOVE_K8S_KEY'' ''ssh-rsa AAAA'']) \<and>
   runCreate tagLookupFailsEnv [] (demoOpt\<lparr>KubernetesVersion := ''2.0.0''\<rparr>) =
     (Inl (Error ''tag service unavailable''),
      [Call_GetTagClusterByName ''K8S-Cluster-demo'',
       Klog_Error ''Failed to get current tag'' []]) \<and>
   runCreate keyFailsEnv [] (demoOpt\<lparr>KubernetesVersion := ''2.0.0''\<rparr>) =
     (Inl (Error ''no such file''),
      [Call_GetTagClusterByName ''K8S-Cluster-demo'', Call_CreateTag ''K8S-Cluster-demo'',
       Call_ReadFile ''/root/.ssh/id_rsa.pub'',
       Klog_Error ''Failed to read ssh public key'' []])"
proof -
  let ?opt = "demoOpt\<lparr>KubernetesVersion := ''2.0.0''\<rparr>"
  have h0: "PresetKubernetes (KubernetesVersion ?opt) = None" by code_simp
  have h1: "resolveTag taggedEnv (ClusterName ?opt) =
      (Inr ''tag-7'', [Call_GetTagClusterByName ''K8S-Cluster-demo''])"
    by code_simp
  have h2: "prepareSSHKey taggedEnv (UseExistKey ?opt) =
      (Inr ''kp-1'', [Call_ReadFile ''/root/.ssh/id_rsa.pub'',
                     Call_CreateSSHKey ''DO_NOT_REMOVE_K8S_KEY'' ''ssh-rsa AAAA''])"
    by code_simp
  have h3: "resolveTag tagLookupFailsEnv (ClusterName ?opt) =
      (Inl (Error ''tag service unavailable''),
       [Call_GetTagClusterByName ''K8S-Cluster-demo'',
        Klog_Error ''Failed to get current tag'' []])"
    by code_simp
  have h4: "resolveTag keyFailsEnv (ClusterName ?opt) =
      (Inr ''tag-1'', [Call_GetTagClusterByName ''K8S-Cluster-demo'',
                      Call_CreateTag ''K8S-Cluster-demo''])"
    by code_simp
  have h5: "prepareSSHKey keyFailsEnv (UseExistKey ?opt) =
      (Inl (Error ''no such file''),
       [Call_ReadFile ''/root/.ssh/id_rsa.pub'',
        Klog_Error ''Failed to read ssh public key'' []])"
    by code_simp
  from runCreate_unsupported_version[OF h0, where a = taggedEnv and sched = "[]"
      and tagID = "''tag-7''" and keyid = "''kp-1''"] h1 h2
  have 1: "runCreate taggedEnv [] ?opt =
     (Inl (Error ''Currently we do not support k8s version 2.0.0''),
      [Call_GetTagClusterByName ''K8S-Cluster-demo'',
       Call_ReadFile ''/root/.ssh/id_rsa.pub'',
       Call_CreateSSHKey ''DO_NOT_REMOVE_K8S_KEY'' ''ssh-rsa AAAA''])"
    by simp
  from runCreate_unsupported_version[OF h0, where a = tagLookupFailsEnv and sched = "[]"] h3
  have 2: "runCreate tagLookupFailsEnv [] ?opt =
     (Inl (Error ''tag service unavailable''),
      [Call_GetTagClusterByName ''K8S-Cluster-demo'',
       Klog_Error ''Failed to get current tag'' []])"
    by blast
  from runCreate_unsupported_version[OF h0, where a = keyFailsEnv and sched = "[]"
      and tagID = "''tag-1''"] h4 h5
  have 3: "runCreate keyFailsEnv [] ?opt =
     (Inl (Error ''no such file''),
      [Call_GetTagClusterByName ''K8S-Cluster-demo'', Call_CreateTag ''K8S-Cluster-demo'',
       Call_ReadFile ''/root/.ssh/id_rsa.pub'',
       Klog_Error ''Failed to read ssh public key'' []])"
    by simp
  from h0 1 2 3 show ?thesis by simp
qed


section \<open>The join loop\<close>

text \<open>
  Claim C4. Under every schedule of the two goroutines the list \<^verbatim>\<open>nodes\<close> that the
  loop walks is the answer of the node creation, in its order. The loop runs
  "swapoff -a; " followed by the join directive on the nodes one after the other in that
  order. When all joins succeed, those are its calls. At the first join that fails the
  loop stops: an error line with the id and the address of that node is logged, the
  error of the remote run is returned, and no later node is called. A failure of the
  loop ends the run: when every step before the loop has succeeded, \<^verbatim>\<open>runCreate\<close>
  returns the error of the loop, and the events of the loop are its last events. For
  the nodes A, B, C with the join failing on B: A is joined, C is never tried.
\<close>

theorem joinNodes_in_provisioning_order:
  "(fst (provision a sched opt preset keyid) = Inr sh \<and>
    CreateInstances a (createNodesOpt opt preset keyid) = Inr ns \<longrightarrow> nodes sh = ns) \<and>
   ((\<forall>n\<in>set ns. snd (QuickConnectAndRun a (IP n) (''swapoff -a; '' @ joinCmd)) = None) \<longrightarrow>
      joinNodes a joinCmd ns =
        (Inr (), map (\<lambda>n. Call_QuickConnectAndRun (IP n) (''swapoff -a; '' @ joinCmd)) ns)) \<and>
   ((\<forall>n\<in>set pre. snd (QuickConnectAndRun a (IP n) (''swapoff -a; '' @ joinCmd)) = None) \<and>
    snd (QuickConnectAndRun a (IP b) (''swapoff -a; '' @ joinCmd)) = Some e \<longrightarrow>
      joinNodes a joinCmd (pre @ b # post) =
        (Inl (Error e),
         map (\<lambda>n. Call_QuickConnectAndRun (IP n) (''swapoff -a; '' @ joinCmd)) pre @
         [Call_QuickConnectAndRun (IP b) (''swapoff -a; '' @ joinCmd),
          Klog_Error ''Failed to join %s %s to cluster'' [ID b, IP b]])) \<and>
   (resolveTag a (ClusterName opt) = (Inr tagID, tTag) \<and>
    prepareSSHKey a (UseExistKey opt) = (Inr keyid, tKey) \<and>
    PresetKubernetes (KubernetesVersion opt) = Some preset \<and>
    provision a sched opt preset keyid = (Inr sh, tProv) \<and>
    errs sh = [] \<and>
    TagInstances a tagID (machines sh) = None \<and>
    bootstrapMaster a (master sh) opt = (Inr joinCmd, tBoot) \<and>
    master sh = Some m \<and>
    applyCNI a (CNIName (NetworkOption opt)) (CNIYamlPath preset) (IP m) = (Inr (), tCni) \<and>
    joinNodes a joinCmd (nodes sh) = (Inl f, tJoin) \<longrightarrow>
      runCreate a sched opt =
        (Inl f, tTag @ tKey @ tProv @ [Call_TagInstances tagID (machines sh)] @ tBoot @ tCni @ tJoin))"
proof (intro conjI impI)
  assume "fst (provision a sched opt preset keyid) = Inr sh \<and>
    CreateInstances a (createNodesOpt opt preset keyid) = Inr ns"
  then show "nodes sh = ns" using provision_nodes by blast
next
  assume "\<forall>n\<in>set ns. snd (QuickConnectAndRun a (IP n) (''swapoff -a; '' @ joinCmd)) = None"
  then show "joinNodes a joinCmd ns =
        (Inr (), map (\<lambda>n. Call_QuickConnectAndRun (IP n) (''swapoff -a; '' @ joinCmd)) ns)"
    by (rule joinNodes_all_joined)
next
  assume "(\<forall>n\<in>set pre. snd (QuickConnectAndRun a (IP n) (''swapoff -a; '' @ joinCmd)) = None) \<and>
    snd (QuickConnectAndRun a (IP b) (''swapoff -a; '' @ joinCmd)) = Some e"
  then show "joinNodes a joinCmd (pre @ b # post) =
        (Inl (Error e),
         map (\<lambda>n. Call_QuickConnectAndRun (IP n) (''swapoff -a; '' @ joinCmd)) pre @
         [Call_QuickConnectAndRun (IP b) (''swapoff -a; '' @ joinCmd),
          Klog_Error ''Failed to join %s %s to cluster'' [ID b, IP b]])"
    using joinNodes_first_failure by blast
next
  assume "resolveTag a (ClusterName opt) = (Inr tagID, tTag) \<and>
    prepareSSHKey a (UseExistKey opt) = (Inr keyid, tKey) \<and>
    PresetKubernetes (KubernetesVersion opt) = Some preset \<and>
    provision a sched opt preset keyid = (Inr sh, tProv) \<and>
    errs sh = [] \<and>
    TagInstances a tagID (machines sh) = None \<and>
    bootstrapMaster a (master sh) opt = (Inr joinCmd, tBoot) \<and>
    master sh = Some m \<and>
    applyCNI a (CNIName (NetworkOption opt)) (CNIYamlPath preset) (IP m) = (Inr (), tCni) \<and>
    joinNodes a joinCmd (nodes sh) = (Inl f, tJoin)"
  then show "runCreate a sched opt =
        (Inl f, tTag @ tKey @ tProv @ [Call_TagInstances tagID (machines sh)] @ tBoot @ tCni @ tJoin)"
    by (clarsimp simp: runCreate_def deref_def)
qed

theorem joinNodes_in_provisioning_order_witness:
  "(\<exists>sh. fst (provision joinFailsEnv racySchedule demoOpt demoPreset ''kp-1'') = Inr sh \<and>
         nodes sh = [nodeA, nodeB, nodeC]) \<and>
   joinNodes demoEnv ''kubeadm join 10.0.0.1:6443 --token abc'' [nodeA, nodeB, nodeC] =
     (Inr (),
      [Call_QuickConnectAndRun ''10.0.0.2'' ''swapoff -a; kubeadm join 10.0.0.1:6443 --token abc'',
       Call_QuickConnectAndRun ''10.0.0.3'' ''swapoff -a; kubeadm join 10.0.0.1:6443 --token abc'',
       Call_QuickConnectAndRun ''10.0.0.4'' ''swapoff -a; kubeadm join 10.0.0.1:6443 --token abc'']) \<and>
   joinNodes joinFailsEnv ''kubeadm join 10.0.0.1:6443 --token abc'' [nodeA, nodeB, nodeC] =
     (Inl (Error ''exit status 1''),
      [Call_QuickConnectAndRun ''10.0.0.2'' ''swapoff -a; kubeadm join 10.0.0.1:6443 --token abc'',
       Call_QuickConnectAndRun ''10.0.0.3'' ''swapoff -a; kubeadm join 10.0.0.1:6443 --token abc'',
       Klog_Error ''Failed to join %s %s to cluster'' [''i-b'', ''10.0.0.3'']]) \<and>
   runCreate joinFailsEnv [] demoOpt =
     (Inl (Error ''exit status 1''),
      [Call_GetTagClusterByName ''K8S-Cluster-demo'', Call_CreateTag ''K8S-Cluster-demo'',
       Call_ReadFile ''/root/.ssh/id_rsa.pub'',
       Call_CreateSSHKey ''DO_NOT_REMOVE_K8S_KEY'' ''ssh-rsa AAAA'',
       Call_CreateInstances (createMasterOpt demoOpt demoPreset ''kp-1''),
       Call_CreateInstances (createNodesOpt demoOpt demoPreset ''kp-1''),
       Call_TagInstances ''tag-1'' [''i-master'', ''i-a'', ''i-b'', ''i-c''],
       Call_QuickConnectAndRun ''10.0.0.1''
         ''swapoff -a;kubeadm init --pod-network-cidr=10.244.0.0/16 --kubernetes-version=v1.15.2'',
       Call_QuickConnectAndRun ''10.0.0.1''
         ''kubectl --kubeconfig=/etc/kubernetes/admin.conf apply -f /root/CNI/flannel/'',
       Call_QuickConnectAndRun ''10.0.0.2'' ''swapoff -a; kubeadm join 10.0.0.1:6443 --token abc'',
       Call_QuickConnectAndRun ''10.0.0.3'' ''swapoff -a; kubeadm join 10.0.0.1:6443 --token abc'',
       Klog_Error ''Failed to join %s %s to cluster'' [''i-b'', ''10.0.0.3'']])"
proof -
  let ?cmd = "''kubeadm join 10.0.0.1:6443 --token abc''"
  let ?sh = "\<lparr>errs = [], machines = [''i-master'', ''i-a'', ''i-b'', ''i-c''],
      master = Some demoMaster, nodes = [nodeA, nodeB, nodeC]\<rparr>"
  let ?ev3 = "[Call_CreateInstances (createMasterOpt demoOpt demoPreset ''kp-1''),
       Call_CreateInstances (createNodesOpt demoOpt demoPreset ''kp-1'')]"
  let ?ev5 = "[Call_QuickConnectAndRun ''10.0.0.1''
         ''swapoff -a;kubeadm init --pod-network-cidr=10.244.0.0/16 --kubernetes-version=v1.15.2'']"
  let ?ev6 = "[Call_QuickConnectAndRun ''10.0.0.1''
         ''kubectl --kubeconfig=/etc/kubernetes/admin.conf apply -f /root/CNI/flannel/'']"
  let ?ev7 = "[Call_QuickConnectAndRun ''10.0.0.2'' ''swapoff -a; kubeadm join 10.0.0.1:6443 --token abc'',
       Call_QuickConnectAndRun ''10.0.0.3'' ''swapoff -a; kubeadm join 10.0.0.1:6443 --token abc'',
       Klog_Error ''Failed to join %s %s to cluster'' [''i-b'', ''10.0.0.3'']]"
  have ns: "CreateInstances joinFailsEnv (createNodesOpt demoOpt demoPreset ''kp-1'')
      = Inr [nodeA, nodeB, nodeC]"
    by code_simp
  obtain sh where sh: "fst (provision joinFailsEnv racySchedule demoOpt demoPreset ''kp-1'') = Inr sh"
    using provision_returns[of joinFailsEnv demoOpt demoPreset "''kp-1''" racySchedule]
    by (auto simp: joinFailsEnv_def demoEnv_def createMasterOpt_def)
  from joinNodes_in_provisioning_order[where a = joinFailsEnv and sched = racySchedule
      and opt = demoOpt and preset = demoPreset and keyid = "''kp-1''" and sh = sh
      and ns = "[nodeA, nodeB, nodeC]"] sh ns
  have "nodes sh = [nodeA, nodeB, nodeC]" by blast
  with sh have 1: "\<exists>sh. fst (provision joinFailsEnv racySchedule demoOpt demoPreset ''kp-1'') = Inr sh \<and>
         nodes sh = [nodeA, nodeB, nodeC]" by blast
  have all: "\<forall>n\<in>set [nodeA, nodeB, nodeC].
      snd (QuickConnectAndRun demoEnv (IP n) (''swapoff -a; '' @ ?cmd)) = None"
    by code_simp
  from joinNodes_in_provisioning_order[where a = demoEnv and joinCmd = ?cmd
      and ns = "[nodeA, nodeB, nodeC]"] all
  have "joinNodes demoEnv ?cmd [nodeA, nodeB, nodeC] =
      (Inr (), map (\<lambda>n. Call_QuickConnectAndRun (IP n) (''swapoff -a; '' @ ?cmd))
                 [nodeA, nodeB, nodeC])"
    by blast
  then have 2: "joinNodes demoEnv ?cmd [nodeA, nodeB, nodeC] =
     (Inr (),
      [Call_QuickConnectAndRun ''10.0.0.2'' ''swapoff -a; kubeadm join 10.0.0.1:6443 --token abc'',
       Call_QuickConnectAndRun ''10.0.0.3'' ''swapoff -a; kubeadm join 10.0.0.1:6443 --token abc'',
       Call_QuickConnectAndRun ''10.0.0.4'' ''swapoff -a; kubeadm join 10.0.0.1:6443 --token abc''])"
    by (simp add: nodeA_def nodeB_def nodeC_def)
  have ok: "\<forall>n\<in>set [nodeA]. snd (QuickConnectAndRun joinFailsEnv (IP n) (''swapoff -a; '' @ ?cmd)) = None"
    by code_simp
  have bad: "snd (QuickConnectAndRun joinFailsEnv (IP nodeB) (''swapoff -a; '' @ ?cmd))
      = Some ''exit status 1''"
    by code_simp
  from joinNodes_in_provisioning_order[where a = joinFailsEnv and joinCmd = ?cmd
      and pre = "[nodeA]" and b = nodeB and e = "''exit status 1''" and post = "[nodeC]"] ok bad
  have "joinNodes joinFailsEnv ?cmd ([nodeA] @ nodeB # [nodeC]) =
        (Inl (Error ''exit status 1''),
         map (\<lambda>n. Call_QuickConnectAndRun (IP n) (''swapoff -a; '' @ ?cmd)) [nodeA] @
         [Call_QuickConnectAndRun (IP nodeB) (''swapoff -a; '' @ ?cmd),
          Klog_Error ''Failed to join %s %s to cluster'' [ID nodeB, IP nodeB]])"
    by blast
  then have 3: "joinNodes joinFailsEnv ?cmd [nodeA, nodeB, nodeC] = (Inl (Error ''exit status 1''), ?ev7)"
    by (simp add: nodeA_def nodeB_def)
  have h1: "resolveTag joinFailsEnv (ClusterName demoOpt) =
      (Inr ''tag-1'', [Call_GetTagClusterByName ''K8S-Cluster-demo'',
                      Call_CreateTag ''K8S-Cluster-demo''])"
    by code_simp
  have h2: "prepareSSHKey joinFailsEnv (UseExistKey demoOpt) =
      (Inr ''kp-1'', [Call_ReadFile ''/root/.ssh/id_rsa.pub'',
                     Call_CreateSSHKey ''DO_NOT_REMOVE_K8S_KEY'' ''ssh-rsa AAAA''])"
    by code_simp
  have h3: "PresetKubernetes (KubernetesVersion demoOpt) = Some demoPreset"
    by code_simp
  have h4: "provision joinFailsEnv [] demoOpt demoPreset ''kp-1'' = (Inr ?sh, ?ev3)"
    by code_simp
  have h5: "TagInstances joinFailsEnv ''tag-1'' (machines ?sh) = None"
    by code_simp
  have h6: "bootstrapMaster joinFailsEnv (master ?sh) demoOpt = (Inr ?cmd, ?ev5)"
    by code_simp
  have h7: "applyCNI joinFailsEnv (CNIName (NetworkOption demoOpt)) (CNIYamlPath demoPreset)
      (IP demoMaster) = (Inr (), ?ev6)"
    by code_simp
  have h8: "joinNodes joinFailsEnv ?cmd (nodes ?sh) = (Inl (Error ''exit status 1''), ?ev7)"
    using 3 by (simp del: joinNodes.simps)
  have he: "errs ?sh = []" by simp
  have hm: "master ?sh = Some demoMaster" by simp
  from joinNodes_in_provisioning_order[where a = joinFailsEnv and sched = "[]" and opt = demoOpt
      and preset = demoPreset and keyid = "''kp-1''" and sh = ?sh and tagID = "''tag-1''"
      and joinCmd = ?cmd and m = demoMaster and f = "Error ''exit status 1''"
      and tTag = "[Call_GetTagClusterByName ''K8S-Cluster-demo'',
                   Call_CreateTag ''K8S-Cluster-demo'']"
      and tKey = "[Call_ReadFile ''/root/.ssh/id_rsa.pub'',
                   Call_CreateSSHKey ''DO_NOT_REMOVE_K8S_KEY'' ''ssh-rsa AAAA'']"
      and tProv = ?ev3 and tBoot = ?ev5 and tCni = ?ev6 and tJoin = ?ev7]
    h1 h2 h3 h4 he h5 h6 hm h7 h8
  have 4: "runCreate joinFailsEnv [] demoOpt =
     (Inl (Error ''exit status 1''),
      [Call_GetTagClusterByName ''K8S-Cluster-demo'', Call_CreateTag ''K8S-Cluster-demo''] @
      [Call_ReadFile ''/root/.ssh/id_rsa.pub'',
       Call_CreateSSHKey ''DO_NOT_REMOVE_K8S_KEY'' ''ssh-rsa AAAA''] @
      ?ev3 @ [Call_TagInstances ''tag-1'' (machines ?sh)] @ ?ev5 @ ?ev6 @ ?ev7)"
    by blast
  from 1 2 3 4 show ?thesis by (simp del: joinNodes.simps)
qed


section \<open>Tag resolution\<close>

text \<open>
  Claim C7. The name of the tag is "K8S-Cluster-" followed by the name of the cluster.
  When a tag of that name exists, the resolution returns its id after the lookup alone:
  \<^verbatim>\<open>CreateTag\<close> is not called. Two resolutions in a row return the same id twice and
  make two lookups and no creation.
\<close>

theorem resolveTag_reuses_tag:
  "tagName name = ''K8S-Cluster-'' @ name \<and>
   (GetTagClusterByName a (tagName name) = Inr (Some t) \<longrightarrow>
      resolveTag a name = (Inr (TagID t), [Call_GetTagClusterByName (tagName name)]) \<and>
      andThen (resolveTag a name) (\<lambda>first.
        andThen (resolveTag a name) (\<lambda>second. ok (first, second))) =
        (Inr (TagID t, TagID t),
         [Call_GetTagClusterByName (tagName name), Call_GetTagClusterByName (tagName name)]))"
  by (simp add: tagName_def resolveTag_def call_def ok_def)

theorem resolveTag_reuses_tag_witness:
  "resolveTag taggedEnv ''demo'' = (Inr ''tag-7'', [Call_GetTagClusterByName ''K8S-Cluster-demo'']) \<and>
   andThen (resolveTag taggedEnv ''demo'') (\<lambda>first.
     andThen (resolveTag taggedEnv ''demo'') (\<lambda>second. ok (first, second))) =
     (Inr (''tag-7'', ''tag-7''),
      [Call_GetTagClusterByName ''K8S-Cluster-demo'',
       Call_GetTagClusterByName ''K8S-Cluster-demo''])"
proof -
  have "GetTagClusterByName taggedEnv (tagName ''demo'') = Inr (Some \<lparr>TagID = ''tag-7''\<rparr>)"
    by code_simp
  with resolveTag_reuses_tag[of "''demo''" taggedEnv "\<lparr>TagID = ''tag-7''\<rparr>"]
  show ?thesis by simp
qed


section \<open>The unsynchronised appends\<close>

text \<open>
  Claim C8 says that the appends to \<^verbatim>\<open>errs\<close> and \<^verbatim>\<open>machines\<close> are synchronised, so
  that no update is lost under any interleaving. The source takes no lock and uses no
  channel. On the schedule where both goroutines read \<^verbatim>\<open>machines\<close> before either
  writes it, the id of the master is lost: \<^verbatim>\<open>machines\<close> holds the three nodes only, and
  the master is not among the machines that are tagged. In the same way, when both
  creations fail, the error of the master is lost from \<^verbatim>\<open>errs\<close> and from the error
  that is returned. When one goroutine runs after the other, nothing is lost.
\<close>

theorem unsynchronised_appends_lose_updates:
  "provision demoEnv racySchedule demoOpt demoPreset ''kp-1'' =
     (Inr \<lparr>errs = [], machines = [''i-a'', ''i-b'', ''i-c''], master = Some demoMaster,
           nodes = [nodeA, nodeB, nodeC]\<rparr>,
      [Call_CreateInstances (createMasterOpt demoOpt demoPreset ''kp-1''),
       Call_CreateInstances (createNodesOpt demoOpt demoPreset ''kp-1'')]) \<and>
   Call_TagInstances ''tag-1'' [''i-a'', ''i-b'', ''i-c'']
     \<in> set (snd (runCreate demoEnv racySchedule demoOpt)) \<and>
   fst (provision demoEnv [] demoOpt demoPreset ''kp-1'') =
     Inr \<lparr>errs = [], machines = [''i-master'', ''i-a'', ''i-b'', ''i-c''],
          master = Some demoMaster, nodes = [nodeA, nodeB, nodeC]\<rparr> \<and>
   fst (provision bothFailEnv racyErrSchedule demoOpt demoPreset ''kp-1'') =
     Inr \<lparr>errs = [''quota exceeded''], machines = [], master = None, nodes = []\<rparr> \<and>
   fst (runCreate bothFailEnv racyErrSchedule demoOpt) =
     Inl (Error ''Creating Machines failed, errs: [quota exceeded]'') \<and>
   fst (runCreate bothFailEnv [] demoOpt) =
     Inl (Error ''Creating Machines failed, errs: [no master image quota exceeded]'')"
  by code_simp

section \<open>The export of the kubeconfig\<close>

text \<open>
  Claim C9. A run that does not ask for the export writes no file. When every step
  before the export succeeds (the same request without the export returns no error,
  with the events \<open>t\<close>), the run with the export goes on from \<open>t\<close>: it runs
  \<^verbatim>\<open>cat /etc/kubernetes/admin.conf\<close> on the master, the first instance that the
  creation of the master answered, and, when that succeeds, writes exactly the bytes it
  got to \<^verbatim>\<open>LocalKubeConfigPath\<close> followed by "/kubeconfig", with the mode 0600 (384).
  A failure of the remote read or of the write is logged and returned.
\<close>

theorem kubeconfig_export:
  "(\<not> ScpKubeConfigToLocal opt \<longrightarrow>
      (\<forall>ev\<in>set (snd (runCreate a sched opt)). \<not> writesFile ev)) \<and>
   (runCreate a sched (opt\<lparr>ScpKubeConfigToLocal := False\<rparr>) = (Inr (), t) \<longrightarrow>
      (\<exists>preset keyid m l.
         PresetKubernetes (KubernetesVersion opt) = Some preset \<and>
         CreateInstances a (createMasterOpt opt preset keyid) = Inr (m # l) \<and>
         runCreate a sched (opt\<lparr>ScpKubeConfigToLocal := True\<rparr>) =
           (case QuickConnectAndRun a (IP m) ''cat /etc/kubernetes/admin.conf'' of
              (bytes, Some e) \<Rightarrow>
                (Inl (Error e),
                 t @ [Call_QuickConnectAndRun (IP m) ''cat /etc/kubernetes/admin.conf'',
                      Klog_Error bytes [], Klog_Error ''Failed to transfer kubeconfig'' []])
            | (bytes, None) \<Rightarrow>
                (case WriteFile a (LocalKubeConfigPath opt @ ''/kubeconfig'') bytes mode0600 of
                   Some e \<Rightarrow>
                     (Inl (Error e),
                      t @ [Call_QuickConnectAndRun (IP m) ''cat /etc/kubernetes/admin.conf'',
                           Call_WriteFile (LocalKubeConfigPath opt @ ''/kubeconfig'') bytes
                             mode0600,
                           Klog_Error ''Failed to write kubeconfig'' [],
                           Klog_Error ''Failed to transfer kubeconfig'' []])
                 | None \<Rightarrow>
                     (Inr (),
                      t @ [Call_QuickConnectAndRun (IP m) ''cat /etc/kubernetes/admin.conf'',
                           Call_WriteFile (LocalKubeConfigPath opt @ ''/kubeconfig'') bytes
                             mode0600]))))) \<and>
   mode0600 = 384 \<and> KubeconfigFilePath = ''/etc/kubernetes/admin.conf''"
proof (intro conjI impI)
  assume "\<not> ScpKubeConfigToLocal opt"
  then show "\<forall>ev\<in>set (snd (runCreate a sched opt)). \<not> writesFile ev"
    using runCreate_no_write by blast
next
  let ?off = "opt\<lparr>ScpKubeConfigToLocal := False\<rparr>"
  let ?on = "opt\<lparr>ScpKubeConfigToLocal := True\<rparr>"
  assume "runCreate a sched ?off = (Inr (), t)"
  from runCreate_succeeds[OF this]
  obtain tagID keyid preset sh joinCmd m t1 t2 t3 t5 t6 t7 where s:
    "resolveTag a (ClusterName opt) = (Inr tagID, t1)"
    "prepareSSHKey a (UseExistKey opt) = (Inr keyid, t2)"
    "PresetKubernetes (KubernetesVersion opt) = Some preset"
    "provision a sched opt preset keyid = (Inr sh, t3)"
    "errs sh = []"
    "TagInstances a tagID (machines sh) = None"
    "bootstrapMaster a (master sh) opt = (Inr joinCmd, t5)"
    "master sh = Some m"
    "applyCNI a (CNIName (NetworkOption opt)) (CNIYamlPath preset) (IP m) = (Inr (), t6)"
    "joinNodes a joinCmd (nodes sh) = (Inr (), t7)"
    "t = t1 @ t2 @ t3 @ [Call_TagInstances tagID (machines sh)] @ t5 @ t6 @ t7"
    by auto
  from provision_master_present[of a sched opt preset keyid sh] s(4,5,8)
  obtain l where l: "CreateInstances a (createMasterOpt opt preset keyid) = Inr (m # l)"
    by auto
  let ?r = "orLog (transferKubeconfigToLocal a (IP m) (LocalKubeConfigPath opt))
      ''Failed to transfer kubeconfig'' []"
  have "runCreate a sched ?on = (fst ?r, t @ snd ?r)"
    using s by (simp add: runCreate_def deref_def)
  then have "runCreate a sched ?on =
           (case QuickConnectAndRun a (IP m) ''cat /etc/kubernetes/admin.conf'' of
              (bytes, Some e) \<Rightarrow>
                (Inl (Error e),
                 t @ [Call_QuickConnectAndRun (IP m) ''cat /etc/kubernetes/admin.conf'',
                      Klog_Error bytes [], Klog_Error ''Failed to transfer kubeconfig'' []])
            | (bytes, None) \<Rightarrow>
                (case WriteFile a (LocalKubeConfigPath opt @ ''/kubeconfig'') bytes mode0600 of
                   Some e \<Rightarrow>
                     (Inl (Error e),
                      t @ [Call_QuickConnectAndRun (IP m) ''cat /etc/kubernetes/admin.conf'',
                           Call_WriteFile (LocalKubeConfigPath opt @ ''/kubeconfig'') bytes
                             mode0600,
                           Klog_Error ''Failed to write kubeconfig'' [],
                           Klog_Error ''Failed to transfer kubeconfig'' []])
                 | None \<Rightarrow>
                     (Inr (),
                      t @ [Call_QuickConnectAndRun (IP m) ''cat /etc/kubernetes/admin.conf'',
                           Call_WriteFile (LocalKubeConfigPath opt @ ''/kubeconfig'') bytes
                             mode0600])))"
    by (simp add: transferKubeconfigToLocal_result split: prod.splits option.splits)
  with s(3) l show "\<exists>preset keyid m l.
         PresetKubernetes (KubernetesVersion opt) = Some preset \<and>
         CreateInstances a (createMasterOpt opt preset keyid) = Inr (m # l) \<and>
         runCreate a sched ?on =
           (case QuickConnectAndRun a (IP m) ''cat /etc/kubernetes/admin.conf'' of
              (bytes, Some e) \<Rightarrow>
                (Inl (Error e),
                 t @ [Call_QuickConnectAndRun (IP m) ''cat /etc/kubernetes/admin.conf'',
                      Klog_Error bytes [], Klog_Error ''Failed to transfer kubeconfig'' []])
            | (bytes, None) \<Rightarrow>
                (case WriteFile a (LocalKubeConfigPath opt @ ''/kubeconfig'') bytes mode0600 of
                   Some e \<Rightarrow>
                     (Inl (Error e),
                      t @ [Call_QuickConnectAndRun (IP m) ''cat /etc/kubernetes/admin.conf'',
                           Call_WriteFile (LocalKubeConfigPath opt @ ''/kubeconfig'') bytes
                             mode0600,
                           Klog_Error ''Failed to write kubeconfig'' [],
                           Klog_Error ''Failed to transfer kubeconfig'' []])
                 | None \<Rightarrow>
                     (Inr (),
                      t @ [Call_QuickConnectAndRun (IP m) ''cat /etc/kubernetes/admin.conf'',
                           Call_WriteFile (LocalKubeConfigPath opt @ ''/kubeconfig'') bytes
                             mode0600])))"
    by blast
next
  show "mode0600 = 384" by (simp add: mode0600_def)
next
  show "KubeconfigFilePath = ''/etc/kubernetes/admin.conf''" by (simp add: KubeconfigFilePath_def)
qed

theorem kubeconfig_export_witness:
  "filter writesFile (snd (runCreate demoEnv [] (demoOpt\<lparr>ScpKubeConfigToLocal := False\<rparr>))) = [] \<and>
   runCreate demoEnv [] (demoOpt\<lparr>ScpKubeConfigToLocal := False\<rparr>) =
     (Inr (),
      [Call_GetTagClusterByName ''K8S-Cluster-demo'', Call_CreateTag ''K8S-Cluster-demo'',
       Call_ReadFile ''/root/.ssh/id_rsa.pub'',
       Call_CreateSSHKey ''DO_NOT_REMOVE_K8S_KEY'' ''ssh-rsa AAAA'',
       Call_CreateInstances (createMasterOpt demoOpt demoPreset ''kp-1''),
       Call_CreateInstances (createNodesOpt demoOpt demoPreset ''kp-1''),
       Call_TagInstances ''tag-1'' [''i-master'', ''i-a'', ''i-b'', ''i-c''],
       Call_QuickConnectAndRun ''10.0.0.1''
         ''swapoff -a;kubeadm init --pod-network-cidr=10.244.0.0/16 --kubernetes-version=v1.15.2'',
       Call_QuickConnectAndRun ''10.0.0.1''
         ''kubectl --kubeconfig=/etc/kubernetes/admin.conf apply -f /root/CNI/flannel/'',
       Call_QuickConnectAndRun ''10.0.0.2'' ''swapoff -a; kubeadm join 10.0.0.1:6443 --token abc'',
       Call_QuickConnectAndRun ''10.0.0.3'' ''swapoff -a; kubeadm join 10.0.0.1:6443 --token abc'',
       Call_QuickConnectAndRun ''10.0.0.4'' ''swapoff -a; kubeadm join 10.0.0.1:6443 --token abc'']) \<and>
   runCreate demoEnv [] (demoOpt\<lparr>ScpKubeConfigToLocal := True\<rparr>) =
     (Inr (),
      [Call_GetTagClusterByName ''K8S-Cluster-demo'', Call_CreateTag ''K8S-Cluster-demo'',
       Call_ReadFile ''/root/.ssh/id_rsa.pub'',
       Call_CreateSSHKey ''DO_NOT_REMOVE_K8S_KEY'' ''ssh-rsa AAAA'',
       Call_CreateInstances (createMasterOpt demoOpt demoPreset ''kp-1''),
       Call_CreateInstances (createNodesOpt demoOpt demoPreset ''kp-1''),
       Call_TagInstances ''tag-1'' [''i-master'', ''i-a'', ''i-b'', ''i-c''],
       Call_QuickConnectAndRun ''10.0.0.1''
         ''swapoff -a;kubeadm init --pod-network-cidr=10.244.0.0/16 --kubernetes-version=v1.15.2'',
       Call_QuickConnectAndRun ''10.0.0.1''
         ''kubectl --kubeconfig=/etc/kubernetes/admin.conf apply -f /root/CNI/flannel/'',
       Call_QuickConnectAndRun ''10.0.0.2'' ''swapoff -a; kubeadm join 10.0.0.1:6443 --token abc'',
       Call_QuickConnectAndRun ''10.0.0.3'' ''swapoff -a; kubeadm join 10.0.0.1:6443 --token abc'',
       Call_QuickConnectAndRun ''10.0.0.4'' ''swapoff -a; kubeadm join 10.0.0.1:6443 --token abc'',
       Call_QuickConnectAndRun ''10.0.0.1'' ''cat /etc/kubernetes/admin.conf'',
       Call_WriteFile ''/tmp/kubeconfig'' ''apiVersion: v1'' 384])"
proof -
  let ?off = "demoOpt\<lparr>ScpKubeConfigToLocal := False\<rparr>"
  let ?t = "[Call_GetTagClusterByName ''K8S-Cluster-demo'', Call_CreateTag ''K8S-Cluster-demo'',
       Call_ReadFile ''/root/.ssh/id_rsa.pub'',
       Call_CreateSSHKey ''DO_NOT_REMOVE_K8S_KEY'' ''ssh-rsa AAAA'',
       Call_CreateInstances (createMasterOpt demoOpt demoPreset ''kp-1''),
       Call_CreateInstances (createNodesOpt demoOpt demoPreset ''kp-1''),
       Call_TagInstances ''tag-1'' [''i-master'', ''i-a'', ''i-b'', ''i-c''],
       Call_QuickConnectAndRun ''10.0.0.1''
         ''swapoff -a;kubeadm init --pod-network-cidr=10.244.0.0/16 --kubernetes-version=v1.15.2'',
       Call_QuickConnectAndRun ''10.0.0.1''
         ''kubectl --kubeconfig=/etc/kubernetes/admin.conf apply -f /root/CNI/flannel/'',
       Call_QuickConnectAndRun ''10.0.0.2'' ''swapoff -a; kubeadm join 10.0.0.1:6443 --token abc'',
       Call_QuickConnectAndRun ''10.0.0.3'' ''swapoff -a; kubeadm join 10.0.0.1:6443 --token abc'',
       Call_QuickConnectAndRun ''10.0.0.4'' ''swapoff -a; kubeadm join 10.0.0.1:6443 --token abc'']"
  have n: "\<not> ScpKubeConfigToLocal ?off" by simp
  from kubeconfig_export[where opt = ?off and a = demoEnv and sched = "[]"] n
  have "\<forall>ev\<in>set (snd (runCreate demoEnv [] ?off)). \<not> writesFile ev" by blast
  then have 0: "filter writesFile (snd (runCreate demoEnv [] ?off)) = []"
    by (simp add: filter_empty_conv)
  have off: "runCreate demoEnv [] ?off = (Inr (), ?t)"
    by code_simp
  from kubeconfig_export[where opt = demoOpt and a = demoEnv and sched = "[]" and t = ?t] off
  obtain preset keyid m l where
    c: "CreateInstances demoEnv (createMasterOpt demoOpt preset keyid) = Inr (m # l)"
    and r: "runCreate demoEnv [] (demoOpt\<lparr>ScpKubeConfigToLocal := True\<rparr>) =
           (case QuickConnectAndRun demoEnv (IP m) ''cat /etc/kubernetes/admin.conf'' of
              (bytes, Some e) \<Rightarrow>
                (Inl (Error e),
                 ?t @ [Call_QuickConnectAndRun (IP m) ''cat /etc/kubernetes/admin.conf'',
                      Klog_Error bytes [], Klog_Error ''Failed to transfer kubeconfig'' []])
            | (bytes, None) \<Rightarrow>
                (case WriteFile demoEnv (LocalKubeConfigPath demoOpt @ ''/kubeconfig'') bytes
                        mode0600 of
                   Some e \<Rightarrow>
                     (Inl (Error e),
                      ?t @ [Call_QuickConnectAndRun (IP m) ''cat /etc/kubernetes/admin.conf'',
                           Call_WriteFile (LocalKubeConfigPath demoOpt @ ''/kubeconfig'') bytes
                             mode0600,
                           Klog_Error ''Failed to write kubeconfig'' [],
                           Klog_Error ''Failed to transfer kubeconfig'' []])
                 | None \<Rightarrow>
                     (Inr (),
                      ?t @ [Call_QuickConnectAndRun (IP m) ''cat /etc/kubernetes/admin.conf'',
                           Call_WriteFile (LocalKubeConfigPath demoOpt @ ''/kubeconfig'') bytes
                             mode0600])))"
    by blast
  from c have "m = demoMaster" by (simp add: demoEnv_def createMasterOpt_def)
  with r have 2: "runCreate demoEnv [] (demoOpt\<lparr>ScpKubeConfigToLocal := True\<rparr>) =
      (Inr (), ?t @ [Call_QuickConnectAndRun ''10.0.0.1'' ''cat /etc/kubernetes/admin.conf'',
                     Call_WriteFile ''/tmp/kubeconfig'' ''apiVersion: v1'' 384])"
    by (simp add: demoEnv_def demoMaster_def demoOpt_def mode0600_def)
  from 0 off 2 show ?thesis by simp
qed


section \<open>The first instance of the master creation\<close>

text \<open>
  Claim C10. The first goroutine takes \<^verbatim>\<open>instances[0]\<close> of a successful master creation
  without a check of the length. When the answer is a non-empty list, no goroutine
  panics under any schedule, and \<^verbatim>\<open>master\<close> is the first instance of the answer; so
  whenever the barrier is passed with no recorded error, \<^verbatim>\<open>master\<close> is set and is that
  first instance. When the answer is the empty list without an error, the index
  expression panics under every schedule, and \<^verbatim>\<open>runCreate\<close> ends in that panic.
\<close>

theorem master_first_instance:
  "(CreateInstances a (createMasterOpt opt preset keyid) = Inr (i # l) \<longrightarrow>
      (\<exists>sh. fst (provision a sched opt preset keyid) = Inr sh \<and> master sh = Some i)) \<and>
   (fst (provision a sched opt preset keyid) = Inr sh \<and> errs sh = [] \<longrightarrow>
      (\<exists>i l. CreateInstances a (createMasterOpt opt preset keyid) = Inr (i # l) \<and>
             master sh = Some i)) \<and>
   (CreateInstances a (createMasterOpt opt preset keyid) = Inr [] \<longrightarrow>
      fst (provision a sched opt preset keyid) = Inl indexPanic \<and>
      (\<forall>tagID t1 t2.
         resolveTag a (ClusterName opt) = (Inr tagID, t1) \<and>
         prepareSSHKey a (UseExistKey opt) = (Inr keyid, t2) \<and>
         PresetKubernetes (KubernetesVersion opt) = Some preset \<longrightarrow>
         fst (runCreate a sched opt) = Inl indexPanic))"
proof (intro conjI impI allI)
  assume h: "CreateInstances a (createMasterOpt opt preset keyid) = Inr (i # l)"
  then obtain sh where sh: "fst (provision a sched opt preset keyid) = Inr sh"
    using provision_returns[of a opt preset keyid sched] by auto
  with provision_master[OF sh h]
  show "\<exists>sh. fst (provision a sched opt preset keyid) = Inr sh \<and> master sh = Some i"
    by blast
next
  assume "fst (provision a sched opt preset keyid) = Inr sh \<and> errs sh = []"
  then show "\<exists>i l. CreateInstances a (createMasterOpt opt preset keyid) = Inr (i # l) \<and>
             master sh = Some i"
    using provision_master_present by blast
next
  assume "CreateInstances a (createMasterOpt opt preset keyid) = Inr []"
  then show "fst (provision a sched opt preset keyid) = Inl indexPanic"
    by (rule provision_panics)
next
  fix tagID t1 t2
  assume h: "CreateInstances a (createMasterOpt opt preset keyid) = Inr []"
    and p: "resolveTag a (ClusterName opt) = (Inr tagID, t1) \<and>
         prepareSSHKey a (UseExistKey opt) = (Inr keyid, t2) \<and>
         PresetKubernetes (KubernetesVersion opt) = Some preset"
  from provision_panics[OF h, of sched]
  obtain t3 where "provision a sched opt preset keyid = (Inl indexPanic, t3)"
    by (cases "provision a sched opt preset keyid") auto
  with p show "fst (runCreate a sched opt) = Inl indexPanic"
    by (simp add: runCreate_def)
qed

theorem master_first_instance_witness:
  "(\<exists>sh. fst (provision demoEnv racySchedule demoOpt demoPreset ''kp-1'') = Inr sh \<and>
         errs sh = [] \<and> master sh = Some demoMaster) \<and>
   fst (provision noMasterEnv racySchedule demoOpt demoPreset ''kp-1'') = Inl indexPanic \<and>
   fst (runCreate noMasterEnv racySchedule demoOpt) = Inl indexPanic"
proof -
  have g: "CreateInstances demoEnv (createMasterOpt demoOpt demoPreset ''kp-1'')
      = Inr (demoMaster # [])"
    by code_simp
  have b: "CreateInstances noMasterEnv (createMasterOpt demoOpt demoPreset ''kp-1'') = Inr []"
    by code_simp
  have h1: "resolveTag noMasterEnv (ClusterName demoOpt) =
      (Inr ''tag-1'', [Call_GetTagClusterByName ''K8S-Cluster-demo'',
                      Call_CreateTag ''K8S-Cluster-demo''])"
    by code_simp
  have h2: "prepareSSHKey noMasterEnv (UseExistKey demoOpt) =
      (Inr ''kp-1'', [Call_ReadFile ''/root/.ssh/id_rsa.pub'',
                     Call_CreateSSHKey ''DO_NOT_REMOVE_K8S_KEY'' ''ssh-rsa AAAA''])"
    by code_simp
  have h3: "PresetKubernetes (KubernetesVersion demoOpt) = Some demoPreset"
    by code_simp
  have e: "errs (projr (fst (provision demoEnv racySchedule demoOpt demoPreset ''kp-1''))) = []"
    by code_simp
  from master_first_instance[where a = demoEnv and opt = demoOpt and preset = demoPreset
      and keyid = "''kp-1''" and i = demoMaster and l = "[]" and sched = racySchedule] g
  obtain sh where sh: "fst (provision demoEnv racySchedule demoOpt demoPreset ''kp-1'') = Inr sh"
    "master sh = Some demoMaster" by blast
  from sh(1) e have e': "errs sh = []" by simp
  from master_first_instance[where a = demoEnv and opt = demoOpt and preset = demoPreset
      and keyid = "''kp-1''" and sched = racySchedule and sh = sh] sh(1) e'
  have "\<exists>i l. CreateInstances demoEnv (createMasterOpt demoOpt demoPreset ''kp-1'') = Inr (i # l) \<and>
             master sh = Some i" by blast
  with sh e' have 1: "\<exists>sh. fst (provision demoEnv racySchedule demoOpt demoPreset ''kp-1'') = Inr sh \<and>
         errs sh = [] \<and> master sh = Some demoMaster" by blast
  from master_first_instance[where a = noMasterEnv and opt = demoOpt and preset = demoPreset
      and keyid = "''kp-1''" and sched = racySchedule] b h1 h2 h3
  have 2: "fst (provision noMasterEnv racySchedule demoOpt demoPreset ''kp-1'') = Inl indexPanic"
    and 3: "fst (runCreate noMasterEnv racySchedule demoOpt) = Inl indexPanic" by blast+
  from 1 2 3 show ?thesis by blast
qed


end
